theory Spec2Isabelle
  imports Main "HOL-Library.Word"
begin

unbundle bit_operations_syntax

section \<open>Data model\<close>

text \<open>
  The runtime image loader decodes an image file into an \<open>FRuntimeImageData\<close> value and
  creates a placeholder texture for it. The embedding below follows
  \<^verbatim>\<open>FRuntimeImageUtils\<close> (the import functions) and \<^verbatim>\<open>FTransformImageParams\<close>
  (\<^verbatim>\<open>RuntimeImageReader.h\<close>) statement by statement. Fixed-width integers of the C++
  code are words; a signed value is read with \<open>sint\<close>.
\<close>

type_synonym uint8 = "8 word"
type_synonym uint16 = "16 word"
type_synonym int32 = "32 word"
type_synonym FString = string

text \<open>\<^verbatim>\<open>FDateTime\<close> wraps a tick count; only its order is used (\<^verbatim>\<open>FMath::Max\<close>).\<close>

type_synonym FDateTime = int

text \<open>
  Enumerations of the engine. \<open>ETextureSourceFormat\<close> lists every enumerator the engine
  declares; \<open>EImageFormat\<close> the three containers the importer asks a wrapper for; and
  \<open>ERGBFormat\<close>, \<open>TextureCompressionSettings\<close> and \<open>EPixelFormat\<close> the enumerators the
  importer names, with a few of their neighbours.
\<close>

datatype EImageFormat = PNG | JPEG | BMP

datatype ERGBFormat = Invalid | RGBA | BGRA | Gray

datatype ETextureSourceFormat =
  TSF_Invalid | TSF_G8 | TSF_BGRA8 | TSF_BGRE8 | TSF_RGBA16 | TSF_RGBA16F
  | TSF_RGBA8 | TSF_RGBE8 | TSF_G16 | TSF_MAX

datatype TextureCompressionSettings = TC_Default | TC_Normalmap | TC_Masks | TC_Grayscale

datatype EPixelFormat =
  PF_Unknown | PF_G8 | PF_G16 | PF_B8G8R8A8 | PF_R16G16B16A16_SINT | PF_FloatRGBA

text \<open>\<^verbatim>\<open>FTransformImageParams\<close> (\<^verbatim>\<open>RuntimeImageReader.h\<close>, lines 19-36).\<close>

record FTransformImageParams =
  bForUI :: bool
  PercentSizeX :: int32
  PercentSizeY :: int32

definition DefaultTransformImageParams :: FTransformImageParams where
  "DefaultTransformImageParams = \<lparr>bForUI = True, PercentSizeX = 100, PercentSizeY = 100\<rparr>"

definition IsPercentSizeValid :: "FTransformImageParams \<Rightarrow> bool" where
  "IsPercentSizeValid p =
     (0 <s PercentSizeX p \<and> PercentSizeX p <s 100 \<and> 0 <s PercentSizeY p \<and> PercentSizeY p <s 100)"

text \<open>
  The range the specification calls free of caller error: a percent in \<open>(0,100]\<close>, where 100
  stands for "no resize along that axis".
\<close>

definition PercentInCallerRange :: "int32 \<Rightarrow> bool" where
  "PercentInCallerRange v = (0 < sint v \<and> sint v \<le> 100)"

text \<open>
  What an engine image wrapper reports once \<^verbatim>\<open>SetCompressed\<close> has accepted a buffer.
  \<open>GetRaw\<close> is \<open>None\<close> where the engine's \<^verbatim>\<open>GetRaw\<close> returns false.
\<close>

record IImageWrapper =
  GetWidth :: int32
  GetHeight :: int32
  GetBitDepth :: int32
  GetFormat :: ERGBFormat
  GetRaw :: "ERGBFormat \<Rightarrow> int32 \<Rightarrow> uint8 list option"

text \<open>
  The fields of \<^verbatim>\<open>FTGAHelpers::FTGAFileHeader\<close> that the importer reads. The declaration
  (\<^verbatim>\<open>Helpers/TGAHelpers.h\<close>) is not among the sources, so the size of the header and the
  view of a buffer as a header are parameters of the platform below.
\<close>

record FTGAFileHeader =
  ColorMapType :: uint8
  ImageTypeCode :: uint8
  Width :: uint16
  Height :: uint16
  BitsPerPixel :: uint8

record FFileStatData =
  CreationTime :: FDateTime
  ModificationTime :: FDateTime

text \<open>
  \<^verbatim>\<open>FRuntimeImageData\<close>, the decoded image: the members the importer reads and writes.
\<close>

record FRuntimeImageData =
  SizeX :: int32
  SizeY :: int32
  Format :: ETextureSourceFormat
  RawData :: "uint8 list"
  SRGB :: bool
  CompressionSettings :: TextureCompressionSettings
  ModificationTime :: FDateTime

text \<open>
  Modelled from the spec: \<^verbatim>\<open>FRuntimeImageData::Init2D\<close> is declared in
  \<^verbatim>\<open>RuntimeImageData.h\<close>, which is not among the sources. The specification's decoded
  image holds a width, a height, a pixel format tag and the raw pixel bytes; \<open>Init2D\<close> stores
  these four and leaves the colour-space flag, the compression hint and the timestamp alone.
\<close>

definition Init2D ::
  "int32 \<Rightarrow> int32 \<Rightarrow> ETextureSourceFormat \<Rightarrow> uint8 list \<Rightarrow> FRuntimeImageData \<Rightarrow> FRuntimeImageData"
where
  "Init2D InSizeX InSizeY InFormat InData img =
     img\<lparr>SizeX := InSizeX, SizeY := InSizeY, Format := InFormat, RawData := InData\<rparr>"

text \<open>
  Everything the importer calls and does not define: the engine's globals and helpers, the
  image wrappers, the storage layer and the TGA and PNG helpers of the plugin.
  \<^item> \<open>CreateImageWrapper f\<close> is \<open>None\<close> when the wrapper pointer is not valid; otherwise it
    is the wrapper's \<^verbatim>\<open>SetCompressed\<close>, which gets the buffer and the length and answers
    \<open>None\<close> for false.
  \<^item> \<open>DecompressTGA\<close> gets the buffer the header pointer points into, the image and the
    error text, and returns its result with both updated.
  \<^item> \<open>FileSize\<close> is a 64-bit value, \<open>-1\<close> (\<^verbatim>\<open>INDEX_NONE\<close>) when there is no such file.
  \<^item> \<open>BlockBytes\<close> is the \<^verbatim>\<open>BlockBytes\<close> column of \<^verbatim>\<open>GPixelFormats\<close>.
\<close>

record Platform =
  GMaxTextureMipCount :: int32
  IsPowerOfTwo :: "int32 \<Rightarrow> bool"
  CreateImageWrapper :: "EImageFormat \<Rightarrow> (uint8 list \<Rightarrow> int32 \<Rightarrow> IImageWrapper option) option"
  FillZeroAlphaPNGData :: "int32 \<Rightarrow> int32 \<Rightarrow> ETextureSourceFormat \<Rightarrow> uint8 list \<Rightarrow> uint8 list"
  sizeof_FTGAFileHeader :: nat
  TGAFileHeader :: "uint8 list \<Rightarrow> FTGAFileHeader"
  DecompressTGA :: "uint8 list \<Rightarrow> FRuntimeImageData \<Rightarrow> FString \<Rightarrow> bool \<times> FRuntimeImageData \<times> FString"
  FileExists :: "FString \<Rightarrow> bool"
  FileSize :: "FString \<Rightarrow> int"
  LoadFileToArray :: "FString \<Rightarrow> uint8 list option"
  GetStatData :: "FString \<Rightarrow> FFileStatData"
  IsInGameThread :: bool
  BlockBytes :: "EPixelFormat \<Rightarrow> int32"

text \<open>
  The calls into the storage layer and the decoders, in the order the importer makes them.
\<close>

datatype Call =
  CallFileExists | CallFileSize | CallLoadFileToArray | CallGetStatData
  | CallSetCompressed EImageFormat | CallGetRaw EImageFormat | CallDecompressTGA

text \<open>
  The two output parameters of the import functions, and the calls made so far.
\<close>

record ImportState =
  OutImage :: FRuntimeImageData
  OutError :: FString
  Calls :: "Call list"

text \<open>A failed \<^verbatim>\<open>check(...)\<close> stops the program.\<close>

datatype Fatal = CheckFailed

section \<open>Formatting\<close>

text \<open>\<^verbatim>\<open>FString::Printf\<close> with \<^verbatim>\<open>%d\<close>: a decimal numeral, with a sign when negative.\<close>

definition DigitChar :: "nat \<Rightarrow> char" where
  "DigitChar d = ''0123456789'' ! d"

function StringOfNat :: "nat \<Rightarrow> string" where
  "StringOfNat n =
     (if n < 10 then [DigitChar n] else StringOfNat (n div 10) @ [DigitChar (n mod 10)])"
  by pat_completeness auto
termination
  by (relation "measure id") auto

declare StringOfNat.simps [simp del]

definition Printf_int :: "int \<Rightarrow> string" where
  "Printf_int v = (if v < 0 then CHR ''-'' # StringOfNat (nat (- v)) else StringOfNat (nat v))"

definition Printf_d :: "int32 \<Rightarrow> string" where
  "Printf_d v = Printf_int (sint v)"

definition ResolutionError :: "int32 \<Rightarrow> int32 \<Rightarrow> FString" where
  "ResolutionError w h =
     ''Texture resolution is not supported: '' @ Printf_d w @ '' x '' @ Printf_d h"

section \<open>The resolution check\<close>

text \<open>
  \<^verbatim>\<open>IsImportResolutionValid\<close> (lines 25-55). The shift \<^verbatim>\<open>1 << (GMaxTextureMipCount - 1)\<close>
  is a 32-bit shift; C++ defines it for a count from 0 to 30.
\<close>

definition MAX_TEXTURE_SIZE :: int32 where
  "MAX_TEXTURE_SIZE = 8192"

definition MaximumSupportedResolution :: "Platform \<Rightarrow> int32" where
  "MaximumSupportedResolution P = push_bit (nat (sint (GMaxTextureMipCount P - 1))) 1"

definition IsImportResolutionValid :: "Platform \<Rightarrow> int32 \<Rightarrow> int32 \<Rightarrow> bool \<Rightarrow> bool" where
  "IsImportResolutionValid P InWidth InHeight bAllowNonPowerOfTwo =
     (let bValid = True;
          bValid = (if MaximumSupportedResolution P <s InWidth \<or> MaximumSupportedResolution P <s InHeight
                    then False else bValid);
          bIsPowerOfTwo = (IsPowerOfTwo P InWidth \<and> IsPowerOfTwo P InHeight);
          bValid = (if \<not> bAllowNonPowerOfTwo \<and> \<not> bIsPowerOfTwo then False else bValid);
          bValid = (if MAX_TEXTURE_SIZE <s InWidth \<or> MAX_TEXTURE_SIZE <s InHeight
                    then False else bValid)
      in bValid)"

section \<open>Importing a buffer\<close>

text \<open>
  \<^verbatim>\<open>PngImageWrapper.IsValid() && PngImageWrapper->SetCompressed(Buffer, Length)\<close>, and
  the same for the other wrappers: \<^verbatim>\<open>SetCompressed\<close> is called only on a valid wrapper.
\<close>

definition TrySetCompressed ::
  "Platform \<Rightarrow> EImageFormat \<Rightarrow> uint8 list \<Rightarrow> int32 \<Rightarrow> ImportState \<Rightarrow> IImageWrapper option \<times> ImportState"
where
  "TrySetCompressed P f Buffer Length st =
     (case CreateImageWrapper P f of
        None \<Rightarrow> (None, st)
      | Some SetCompressed \<Rightarrow>
          (SetCompressed Buffer Length, st\<lparr>Calls := Calls st @ [CallSetCompressed f]\<rparr>))"

text \<open>
  The choice of the texture's source format for PNG (lines 76-110): the texture format,
  and the format and bit depth asked of \<^verbatim>\<open>GetRaw\<close>.
\<close>

definition SelectFormatPNG :: "ERGBFormat \<Rightarrow> int32 \<Rightarrow> ETextureSourceFormat \<times> ERGBFormat \<times> int32" where
  "SelectFormatPNG Fmt BitDepth =
     (if Fmt = Gray then
        (if BitDepth \<le>s 8 then (TSF_G8, Gray, 8)
         else if BitDepth = 16 then (TSF_RGBA16, RGBA, 16)
         else (TSF_Invalid, Fmt, BitDepth))
      else if Fmt = RGBA \<or> Fmt = BGRA then
        (if BitDepth \<le>s 8 then (TSF_BGRA8, BGRA, 8)
         else if BitDepth = 16 then (TSF_RGBA16, RGBA, 16)
         else (TSF_Invalid, Fmt, BitDepth))
      else (TSF_Invalid, Fmt, BitDepth))"

text \<open>The same choice for JPEG (lines 159-180).\<close>

definition SelectFormatJPEG :: "ERGBFormat \<Rightarrow> int32 \<Rightarrow> ETextureSourceFormat \<times> ERGBFormat \<times> int32" where
  "SelectFormatJPEG Fmt BitDepth =
     (if Fmt = Gray then
        (if BitDepth \<le>s 8 then (TSF_G8, Gray, 8) else (TSF_Invalid, Fmt, BitDepth))
      else if Fmt = RGBA then
        (if BitDepth \<le>s 8 then (TSF_BGRA8, BGRA, 8) else (TSF_Invalid, Fmt, BitDepth))
      else (TSF_Invalid, Fmt, BitDepth))"

text \<open>The PNG branch (lines 68-144), entered once the PNG wrapper has accepted the buffer.\<close>

definition ImportPNG :: "Platform \<Rightarrow> IImageWrapper \<Rightarrow> ImportState \<Rightarrow> bool \<times> ImportState" where
  "ImportPNG P W st =
     (if \<not> IsImportResolutionValid P (GetWidth W) (GetHeight W) True
      then (False, st\<lparr>OutError := ResolutionError (GetWidth W) (GetHeight W)\<rparr>)
      else
        (case SelectFormatPNG (GetFormat W) (GetBitDepth W) of
           (TextureFormat, Fmt, BitDepth) \<Rightarrow>
             if BitDepth = 16
             then (False, st\<lparr>OutError := ''16bit PNG file is not supported''\<rparr>)
             else if TextureFormat = TSF_Invalid
             then (False, st\<lparr>OutError := ''PNG file contains data in an unsupported format.''\<rparr>)
             else
               (case GetRaw W Fmt BitDepth of
                  Some RawPNG \<Rightarrow>
                    (let img = Init2D (GetWidth W) (GetHeight W) TextureFormat RawPNG (OutImage st);
                         img = img\<lparr>SRGB := BitDepth <s 16\<rparr>;
                         img = img\<lparr>RawData :=
                                 FillZeroAlphaPNGData P (SizeX img) (SizeY img) (Format img) (RawData img)\<rparr>
                     in (True, st\<lparr>OutImage := img, Calls := Calls st @ [CallGetRaw PNG]\<rparr>))
                | None \<Rightarrow>
                    (False, st\<lparr>OutError := ''Failed to decode PNG.'',
                                Calls := Calls st @ [CallGetRaw PNG]\<rparr>))))"

text \<open>The JPEG branch (lines 151-206).\<close>

definition ImportJPEG :: "Platform \<Rightarrow> IImageWrapper \<Rightarrow> ImportState \<Rightarrow> bool \<times> ImportState" where
  "ImportJPEG P W st =
     (if \<not> IsImportResolutionValid P (GetWidth W) (GetHeight W) True
      then (False, st\<lparr>OutError := ResolutionError (GetWidth W) (GetHeight W)\<rparr>)
      else
        (case SelectFormatJPEG (GetFormat W) (GetBitDepth W) of
           (TextureFormat, Fmt, BitDepth) \<Rightarrow>
             if TextureFormat = TSF_Invalid
             then (False, st\<lparr>OutError := ''JPEG file contains data in an unsupported format.''\<rparr>)
             else
               (case GetRaw W Fmt BitDepth of
                  Some RawJPEG \<Rightarrow>
                    (let img = Init2D (GetWidth W) (GetHeight W) TextureFormat RawJPEG (OutImage st);
                         img = img\<lparr>SRGB := BitDepth <s 16\<rparr>
                     in (True, st\<lparr>OutImage := img, Calls := Calls st @ [CallGetRaw JPEG]\<rparr>))
                | None \<Rightarrow>
                    (False, st\<lparr>OutError := ''Failed to decode JPEG.'',
                                Calls := Calls st @ [CallGetRaw JPEG]\<rparr>))))"

text \<open>The BMP branch (lines 213-240): always \<open>TSF_BGRA8\<close>, and \<open>SRGB\<close> is not assigned.\<close>

definition ImportBMP :: "Platform \<Rightarrow> IImageWrapper \<Rightarrow> ImportState \<Rightarrow> bool \<times> ImportState" where
  "ImportBMP P W st =
     (if \<not> IsImportResolutionValid P (GetWidth W) (GetHeight W) True
      then (False, st\<lparr>OutError := ResolutionError (GetWidth W) (GetHeight W)\<rparr>)
      else
        (case GetRaw W (GetFormat W) (GetBitDepth W) of
           Some RawBMP \<Rightarrow>
             (True, st\<lparr>OutImage := Init2D (GetWidth W) (GetHeight W) TSF_BGRA8 RawBMP (OutImage st),
                        Calls := Calls st @ [CallGetRaw BMP]\<rparr>)
         | None \<Rightarrow>
             (False, st\<lparr>OutError := ''Failed to decode BMP.'', Calls := Calls st @ [CallGetRaw BMP]\<rparr>)))"

text \<open>
  The test on the TGA header (lines 247-253). \<^verbatim>\<open>Length >= sizeof(FTGAFileHeader)\<close> compares
  an \<^verbatim>\<open>int32\<close> with a \<^verbatim>\<open>size_t\<close>: the length is converted to the unsigned 64-bit type first.
  The header is read only when the length test has passed.
\<close>

definition TGAHeaderFits :: "Platform \<Rightarrow> int32 \<Rightarrow> bool" where
  "TGAHeaderFits P Length = (int (sizeof_FTGAFileHeader P) \<le> uint (scast Length :: 64 word))"

definition TGATypeSupported :: "FTGAFileHeader \<Rightarrow> bool" where
  "TGATypeSupported TGA =
     ((ColorMapType TGA = 0 \<and> ImageTypeCode TGA = 2) \<or>
      (ColorMapType TGA = 0 \<and> ImageTypeCode TGA = 3) \<or>
      (ColorMapType TGA = 0 \<and> ImageTypeCode TGA = 10) \<or>
      (ColorMapType TGA = 1 \<and> ImageTypeCode TGA = 1 \<and> BitsPerPixel TGA = 8))"

text \<open>The TGA branch (lines 246-283), reached when no wrapper has accepted the buffer.\<close>

definition ImportTGA :: "Platform \<Rightarrow> uint8 list \<Rightarrow> int32 \<Rightarrow> ImportState \<Rightarrow> bool \<times> ImportState" where
  "ImportTGA P Buffer Length st =
     (let TGA = TGAFileHeader P Buffer in
      if TGAHeaderFits P Length \<and> TGATypeSupported TGA then
        (if \<not> IsImportResolutionValid P (ucast (Width TGA)) (ucast (Height TGA)) True
         then (False, st\<lparr>OutError := ResolutionError (ucast (Width TGA)) (ucast (Height TGA))\<rparr>)
         else
           (case DecompressTGA P Buffer (OutImage st) (OutError st) of
              (bResult, img, err) \<Rightarrow>
                if bResult then
                  (True, st\<lparr>OutImage :=
                              (if CompressionSettings img = TC_Grayscale \<and> ImageTypeCode TGA = 3
                               then img\<lparr>SRGB := False\<rparr> else img),
                            OutError := err,
                            Calls := Calls st @ [CallDecompressTGA]\<rparr>)
                else
                  (False, st\<lparr>OutImage := img,
                             OutError := ''Failed to decompress TGA.'',
                             Calls := Calls st @ [CallDecompressTGA]\<rparr>)))
      else (False, st\<lparr>OutError := ''TGA file contains data in an unsupported format.''\<rparr>))"

text \<open>\<^verbatim>\<open>ImportBufferAsImage\<close> (lines 57-284).\<close>

definition ImportBufferAsImage ::
  "Platform \<Rightarrow> uint8 list \<Rightarrow> int32 \<Rightarrow> ImportState \<Rightarrow> bool \<times> ImportState"
where
  "ImportBufferAsImage P Buffer Length st =
     (case TrySetCompressed P PNG Buffer Length st of
        (Some PngImageWrapper, st) \<Rightarrow> ImportPNG P PngImageWrapper st
      | (None, st) \<Rightarrow>
     (case TrySetCompressed P JPEG Buffer Length st of
        (Some JpegImageWrapper, st) \<Rightarrow> ImportJPEG P JpegImageWrapper st
      | (None, st) \<Rightarrow>
     (case TrySetCompressed P BMP Buffer Length st of
        (Some BmpImageWrapper, st) \<Rightarrow> ImportBMP P BmpImageWrapper st
      | (None, st) \<Rightarrow> ImportTGA P Buffer Length st)))"

section \<open>Importing a file\<close>

definition MAX_FILESIZE_BYTES :: int where
  "MAX_FILESIZE_BYTES = 999999999"

definition INDEX_NONE :: int where
  "INDEX_NONE = - 1"

text \<open>\<^verbatim>\<open>FMath::Max(A, B)\<close> is \<^verbatim>\<open>(A >= B) ? A : B\<close>.\<close>

definition FMath_Max :: "FDateTime \<Rightarrow> FDateTime \<Rightarrow> FDateTime" where
  "FMath_Max A B = (if A \<ge> B then A else B)"

text \<open>
  \<^verbatim>\<open>ImportFileAsImage\<close> (lines 286-330). The buffer gets one more byte, a zero, after the
  file's bytes, and the decoder is given the length without it. The size limit is printed
  with \<^verbatim>\<open>%d\<close>; its value fits 32 bits, so the text shows it in full.
\<close>

definition ImportFileAsImage :: "Platform \<Rightarrow> FString \<Rightarrow> ImportState \<Rightarrow> Fatal + ImportState" where
  "ImportFileAsImage P ImageFilename st =
     (let st = st\<lparr>Calls := Calls st @ [CallFileExists]\<rparr> in
      if \<not> FileExists P ImageFilename
      then Inr (st\<lparr>OutError := ''Image does not exist: '' @ ImageFilename\<rparr>)
      else
        (let ImageFileSizeBytes = FileSize P ImageFilename;
             st = st\<lparr>Calls := Calls st @ [CallFileSize]\<rparr> in
         if ImageFileSizeBytes = INDEX_NONE then Inl CheckFailed
         else if ImageFileSizeBytes > MAX_FILESIZE_BYTES
         then Inr (st\<lparr>OutError :=
                 ''Image filesize > '' @ Printf_int MAX_FILESIZE_BYTES @ '' MBs): '' @ ImageFilename\<rparr>)
         else
           (let st = st\<lparr>Calls := Calls st @ [CallLoadFileToArray]\<rparr> in
            case LoadFileToArray P ImageFilename of
              None \<Rightarrow> Inr (st\<lparr>OutError := ''Image I/O error: '' @ ImageFilename\<rparr>)
            | Some FileBytes \<Rightarrow>
                (let ImageBuffer = FileBytes @ [0];
                     ImageFileStatData = GetStatData P ImageFilename;
                     st = st\<lparr>Calls := Calls st @ [CallGetStatData]\<rparr>;
                     st = st\<lparr>OutImage := (OutImage st)\<lparr>ModificationTime :=
                            FMath_Max (CreationTime ImageFileStatData)
                              (FFileStatData.ModificationTime ImageFileStatData)\<rparr>\<rparr>
                 in Inr (snd (ImportBufferAsImage P ImageBuffer
                               (word_of_nat (length ImageBuffer) - 1) st))))))"

section \<open>The placeholder texture\<close>

record FTexture2DMipMap =
  MipSizeX :: int32
  MipSizeY :: int32
  BulkData :: "uint8 list"

record FTexturePlatformData =
  PlatformSizeX :: int32
  PlatformSizeY :: int32
  PixelFormat :: EPixelFormat
  Mips :: "FTexture2DMipMap list"

record UTexture2D =
  NeverStream :: bool
  PlatformData :: FTexturePlatformData

text \<open>The \<^verbatim>\<open>switch\<close> on the image format (lines 350-360).\<close>

fun SelectPixelFormat :: "ETextureSourceFormat \<Rightarrow> EPixelFormat" where
  "SelectPixelFormat TSF_G8 = PF_G8"
| "SelectPixelFormat TSF_G16 = PF_G16"
| "SelectPixelFormat TSF_BGRA8 = PF_B8G8R8A8"
| "SelectPixelFormat TSF_BGRE8 = PF_B8G8R8A8"
| "SelectPixelFormat TSF_RGBA16 = PF_R16G16B16A16_SINT"
| "SelectPixelFormat TSF_RGBA16F = PF_FloatRGBA"
| "SelectPixelFormat _ = PF_B8G8R8A8"

text \<open>
  \<^verbatim>\<open>CreateDummyTexture\<close> (lines 332-390). The function gets the file name and the format
  tag, no dimensions: the platform data and the single mip are 1 by 1, and the mip's bulk
  data are \<^verbatim>\<open>MipBytes\<close> zero bytes. \<^verbatim>\<open>check(IsInGameThread())\<close> is the first
  statement. The object's name, its package, the validity check of the new object and
  \<^verbatim>\<open>UpdateResource\<close> are the engine's bookkeeping and are left out.
\<close>

definition CreateDummyTexture :: "Platform \<Rightarrow> FString \<Rightarrow> ETextureSourceFormat \<Rightarrow> Fatal + UTexture2D" where
  "CreateDummyTexture P ImageFilename ImageFormat =
     (if \<not> IsInGameThread P then Inl CheckFailed
      else
        (let PixelFormat = SelectPixelFormat ImageFormat;
             Mip = \<lparr>MipSizeX = 1, MipSizeY = 1, BulkData = []\<rparr>;
             MipBytes = MipSizeX Mip * MipSizeY Mip * BlockBytes P PixelFormat;
             Mip = Mip\<lparr>BulkData := replicate (unat MipBytes) 0\<rparr>
         in Inr \<lparr>NeverStream = True,
                 PlatformData = \<lparr>PlatformSizeX = 1, PlatformSizeY = 1,
                                 PixelFormat = PixelFormat, Mips = [Mip]\<rparr>\<rparr>))"

section \<open>Notions used to state the properties\<close>

text \<open>
  What a wrapper answers for a buffer: \<open>None\<close> when the wrapper is not valid or
  \<^verbatim>\<open>SetCompressed\<close> refuses the buffer.
\<close>

definition Recognized :: "Platform \<Rightarrow> EImageFormat \<Rightarrow> uint8 list \<Rightarrow> int32 \<Rightarrow> IImageWrapper option" where
  "Recognized P f Buffer Length =
     (case CreateImageWrapper P f of
        None \<Rightarrow> None
      | Some SetCompressed \<Rightarrow> SetCompressed Buffer Length)"

text \<open>
  The decoded dimensions of a buffer: those the first accepting wrapper reports, or those
  of a TGA header that passes the header test; \<open>None\<close> for a buffer nobody accepts.
\<close>

definition DecodedDimensions :: "Platform \<Rightarrow> uint8 list \<Rightarrow> int32 \<Rightarrow> (int32 \<times> int32) option" where
  "DecodedDimensions P Buffer Length =
     (case Recognized P PNG Buffer Length of
        Some W \<Rightarrow> Some (GetWidth W, GetHeight W)
      | None \<Rightarrow>
     (case Recognized P JPEG Buffer Length of
        Some W \<Rightarrow> Some (GetWidth W, GetHeight W)
      | None \<Rightarrow>
     (case Recognized P BMP Buffer Length of
        Some W \<Rightarrow> Some (GetWidth W, GetHeight W)
      | None \<Rightarrow>
          if TGAHeaderFits P Length \<and> TGATypeSupported (TGAFileHeader P Buffer)
          then Some (ucast (Width (TGAFileHeader P Buffer)), ucast (Height (TGAFileHeader P Buffer)))
          else None)))"

text \<open>
  The \<^verbatim>\<open>SetCompressed\<close> calls made when the wrappers \<open>fs\<close> are tried in order: one for
  each valid wrapper.
\<close>

definition Attempts :: "Platform \<Rightarrow> EImageFormat list \<Rightarrow> Call list" where
  "Attempts P fs = map CallSetCompressed (filter (\<lambda>f. CreateImageWrapper P f \<noteq> None) fs)"

text \<open>
  The texts \<^verbatim>\<open>ImportBufferAsImage\<close> assigns to the error, the resolution error apart.
\<close>

definition FixedErrorTexts :: "FString list" where
  "FixedErrorTexts =
     [''16bit PNG file is not supported'',
      ''PNG file contains data in an unsupported format.'',
      ''Failed to decode PNG.'',
      ''JPEG file contains data in an unsupported format.'',
      ''Failed to decode JPEG.'',
      ''Failed to decode BMP.'',
      ''Failed to decompress TGA.'',
      ''TGA file contains data in an unsupported format.'']"

section \<open>A platform for concrete runs\<close>

text \<open>
  A stand-in for the engine and the plugin's helpers, on which the functions above can be
  run: the mip count is 14, the power-of-two test is the bit test \<open>v AND (v - 1) = 0\<close>, each
  wrapper answers what \<open>reports\<close> says, the TGA header has its 18 packed bytes (little
  endian), and the storage layer holds the files that \<open>files\<close> lists.
\<close>

record TestFile =
  TestFileSize :: int
  TestFileBytes :: "uint8 list option"
  TestFileStat :: FFileStatData

definition PackedTGAHeader :: "uint8 list \<Rightarrow> FTGAFileHeader" where
  "PackedTGAHeader Buffer =
     \<lparr>ColorMapType = Buffer ! 1, ImageTypeCode = Buffer ! 2,
      Width = word_cat (Buffer ! 13) (Buffer ! 12),
      Height = word_cat (Buffer ! 15) (Buffer ! 14),
      BitsPerPixel = Buffer ! 16\<rparr>"

text \<open>
  The stand-in for \<^verbatim>\<open>FTGAHelpers::DecompressTGA\<close>, which is not among the sources: an
  8-bit image that is colour-mapped (type 1) or grayscale (type 3) becomes \<open>TSF_G8\<close> with
  the grayscale compression setting; a true-colour image (type 2, or type 10 when
  run-length encoded) of 16, 24 or 32 bits per pixel becomes \<open>TSF_BGRA8\<close>; anything else
  fails. The pixel data are taken as they stand after the header.
\<close>

definition TestDecompressTGA ::
  "uint8 list \<Rightarrow> FRuntimeImageData \<Rightarrow> FString \<Rightarrow> bool \<times> FRuntimeImageData \<times> FString"
where
  "TestDecompressTGA Buffer img err =
     (let TGA = PackedTGAHeader Buffer in
      if BitsPerPixel TGA = 8 \<and>
         ((ColorMapType TGA = 1 \<and> ImageTypeCode TGA = 1) \<or>
          (ColorMapType TGA = 0 \<and> ImageTypeCode TGA = 3))
      then (True,
            (Init2D (ucast (Width TGA)) (ucast (Height TGA)) TSF_G8 (drop 18 Buffer) img)
              \<lparr>CompressionSettings := TC_Grayscale\<rparr>,
            err)
      else if (ImageTypeCode TGA = 2 \<or> ImageTypeCode TGA = 10) \<and>
              (BitsPerPixel TGA = 16 \<or> BitsPerPixel TGA = 24 \<or> BitsPerPixel TGA = 32)
      then (True, Init2D (ucast (Width TGA)) (ucast (Height TGA)) TSF_BGRA8 (drop 18 Buffer) img, err)
      else (False, img, ''TGA is an unsupported type''))"

definition TestBlockBytes :: "EPixelFormat \<Rightarrow> int32" where
  "TestBlockBytes f =
     (case f of PF_Unknown \<Rightarrow> 0 | PF_G8 \<Rightarrow> 1 | PF_G16 \<Rightarrow> 2 | PF_B8G8R8A8 \<Rightarrow> 4
      | PF_R16G16B16A16_SINT \<Rightarrow> 8 | PF_FloatRGBA \<Rightarrow> 8)"

definition TestPlatform ::
  "(EImageFormat \<Rightarrow> IImageWrapper option) \<Rightarrow> (FString \<Rightarrow> TestFile option) \<Rightarrow> Platform"
where
  "TestPlatform reports files =
     \<lparr>GMaxTextureMipCount = 14,
      IsPowerOfTwo = (\<lambda>v. v AND (v - 1) = 0),
      CreateImageWrapper = (\<lambda>f. Some (\<lambda>Buffer Length. reports f)),
      FillZeroAlphaPNGData = (\<lambda>w h f d. d),
      sizeof_FTGAFileHeader = 18,
      TGAFileHeader = PackedTGAHeader,
      DecompressTGA = TestDecompressTGA,
      FileExists = (\<lambda>n. files n \<noteq> None),
      FileSize = (\<lambda>n. case files n of None \<Rightarrow> - 1 | Some f \<Rightarrow> TestFileSize f),
      LoadFileToArray = (\<lambda>n. case files n of None \<Rightarrow> None | Some f \<Rightarrow> TestFileBytes f),
      GetStatData = (\<lambda>n. case files n of
                             None \<Rightarrow> \<lparr>CreationTime = 0, ModificationTime = 0\<rparr>
                           | Some f \<Rightarrow> TestFileStat f),
      IsInGameThread = True,
      BlockBytes = TestBlockBytes\<rparr>"

definition TestWrapper :: "int32 \<Rightarrow> int32 \<Rightarrow> int32 \<Rightarrow> ERGBFormat \<Rightarrow> IImageWrapper" where
  "TestWrapper w h depth fmt =
     \<lparr>GetWidth = w, GetHeight = h, GetBitDepth = depth, GetFormat = fmt,
      GetRaw = (\<lambda>f d. Some (replicate (unat w * unat h) 0))\<rparr>"

definition EmptyImage :: FRuntimeImageData where
  "EmptyImage =
     \<lparr>SizeX = 0, SizeY = 0, Format = TSF_Invalid, RawData = [], SRGB = True,
      CompressionSettings = TC_Default, ModificationTime = 0\<rparr>"

definition EmptyState :: ImportState where
  "EmptyState = \<lparr>OutImage = EmptyImage, OutError = [], Calls = []\<rparr>"

text \<open>
  A TGA file of one pixel: the 18 header bytes with the given colour-map type, image type
  and bits per pixel, and four bytes of pixel data.
\<close>

definition TGABuffer :: "uint8 \<Rightarrow> uint8 \<Rightarrow> uint8 \<Rightarrow> uint8 list" where
  "TGABuffer cmap type bpp =
     [0, cmap, type, 0, 0, 0, 0, 0, 0, 0, 0, 0, 1, 0, 1, 0, bpp, 0, 255, 255, 255, 255]"

text \<open>Wrapper answers for the runs below.\<close>

definition BigPNG :: "EImageFormat \<Rightarrow> IImageWrapper option" where
  "BigPNG f = (if f = PNG then Some (TestWrapper 16385 16385 8 RGBA) else None)"

definition GrayPNG8 :: "EImageFormat \<Rightarrow> IImageWrapper option" where
  "GrayPNG8 f = (if f = PNG then Some (TestWrapper 2 2 8 Gray) else None)"

definition GrayJPEG8 :: "EImageFormat \<Rightarrow> IImageWrapper option" where
  "GrayJPEG8 f = (if f = JPEG then Some (TestWrapper 2 2 8 Gray) else None)"

definition GrayPNG16 :: "EImageFormat \<Rightarrow> IImageWrapper option" where
  "GrayPNG16 f = (if f = PNG then Some (TestWrapper 2 2 16 Gray) else None)"





definition AcceptedBy :: "EImageFormat list \<Rightarrow> EImageFormat \<Rightarrow> IImageWrapper option" where
  "AcceptedBy fs f = (if f \<in> set fs then Some (TestWrapper 2 2 8 RGBA) else None)"

text \<open>The files of the storage layer for the runs below.\<close>

definition TestFiles :: "FString \<Rightarrow> TestFile option" where
  "TestFiles n =
     (if n = ''big.png'' then
        Some \<lparr>TestFileSize = 1000000000, TestFileBytes = Some [],
              TestFileStat = \<lparr>CreationTime = 1, ModificationTime = 2\<rparr>\<rparr>
      else if n = ''locked.png'' then
        Some \<lparr>TestFileSize = 3, TestFileBytes = None,
              TestFileStat = \<lparr>CreationTime = 1, ModificationTime = 2\<rparr>\<rparr>
      else if n = ''edited.tga'' then
        Some \<lparr>TestFileSize = 22, TestFileBytes = Some (TGABuffer 0 2 32),
              TestFileStat = \<lparr>CreationTime = 3, ModificationTime = 7\<rparr>\<rparr>
      else if n = ''copied.tga'' then
        Some \<lparr>TestFileSize = 22, TestFileBytes = Some (TGABuffer 0 2 32),
              TestFileStat = \<lparr>CreationTime = 10, ModificationTime = 5\<rparr>\<rparr>
      else None)"

section \<open>Word arithmetic\<close>

lemma sint_word_of_int_small:
  assumes "0 \<le> k" "k < 2 ^ 31"
  shows "sint (word_of_int k :: int32) = k"
  using assms by (simp add: sint_sbintrunc' signed_take_bit_int_eq_self)

lemma sint_push_bit_one:
  assumes "n < 31"
  shows "sint (push_bit n (1::int32)) = 2 ^ n"
proof -
  have "(2::int) ^ n < 2 ^ 31"
    by (rule power_strict_increasing) (use assms in simp_all)
  then have "sint (word_of_int (2 ^ n) :: int32) = 2 ^ n"
    by (intro sint_word_of_int_small) simp_all
  then show ?thesis by (simp add: word_of_int_2p)
qed

lemma sint_minus_one:
  fixes G :: int32
  assumes "1 \<le> sint G"
  shows "sint (G - 1) = sint G - 1"
proof -
  have "sint G < 2 ^ 31" using sint_lt [of G] by simp
  then show ?thesis using assms
    by (simp add: sint_word_ariths signed_take_bit_int_eq_self)
qed

lemma uint_scast_nonneg:
  fixes L :: int32
  assumes "0 \<le> sint L"
  shows "uint (scast L :: 64 word) = sint L"
proof -
  have "sint L < 2 ^ 31" using sint_lt [of L] by simp
  also have "(2::int) ^ 31 < 2 ^ 64"
    by (rule power_strict_increasing) simp_all
  finally have lt: "sint L < 2 ^ 64" .
  have "uint (scast L :: 64 word) = take_bit 64 (sint L)"
    by (simp only: scast_eq uint_word_of_int_eq) simp
  also have "\<dots> = sint L"
    using assms lt by (rule take_bit_int_eq_self)
  finally show ?thesis .
qed

section \<open>Evaluation on the concrete platform\<close>

lemmas TestRun_defs =
  ImportBufferAsImage_def TrySetCompressed_def ImportTGA_def ImportPNG_def ImportJPEG_def ImportBMP_def
  TestPlatform_def PackedTGAHeader_def TGAHeaderFits_def TGATypeSupported_def
  IsImportResolutionValid_def MaximumSupportedResolution_def MAX_TEXTURE_SIZE_def
  SelectFormatPNG_def SelectFormatJPEG_def TestWrapper_def
  TestDecompressTGA_def Init2D_def EmptyState_def EmptyImage_def Let_def
  word_sless_alt word_sle_eq

section \<open>Transform parameters\<close>

text \<open>
  C5 (as the code has it). \<open>IsPercentSizeValid\<close> accepts a transform configuration exactly
  when both percents lie strictly between 0 and 100. The default configuration, whose
  percents are 100 ("no resize") and lie in the range \<open>(0,100]\<close>, is not accepted.
\<close>

theorem IsPercentSizeValid_iff:
  "IsPercentSizeValid p =
     (0 < sint (PercentSizeX p) \<and> sint (PercentSizeX p) < 100 \<and>
      0 < sint (PercentSizeY p) \<and> sint (PercentSizeY p) < 100) \<and>
   PercentInCallerRange (PercentSizeX DefaultTransformImageParams) \<and>
   PercentInCallerRange (PercentSizeY DefaultTransformImageParams) \<and>
   IsPercentSizeValid DefaultTransformImageParams = False"
  by (simp add: IsPercentSizeValid_def word_sless_alt PercentInCallerRange_def
      DefaultTransformImageParams_def)

text \<open>
  C5 as stated fails: a configuration whose percents are 100 is inside \<open>(0,100]\<close>, so it is
  no caller error, and yet \<open>IsPercentSizeValid\<close> rejects it.
\<close>

theorem IsPercentSizeValid_100_counterexample:
  "PercentInCallerRange (PercentSizeX \<lparr>bForUI = True, PercentSizeX = 100, PercentSizeY = 100\<rparr>) \<and>
   PercentInCallerRange (PercentSizeY \<lparr>bForUI = True, PercentSizeX = 100, PercentSizeY = 100\<rparr>) \<and>
   IsPercentSizeValid \<lparr>bForUI = True, PercentSizeX = 100, PercentSizeY = 100\<rparr> = False"
  by (simp add: IsPercentSizeValid_def PercentInCallerRange_def)

section \<open>The resolution check: properties\<close>

lemma MaximumSupportedResolution_sint:
  assumes "1 \<le> sint (GMaxTextureMipCount P)" "sint (GMaxTextureMipCount P) \<le> 31"
  shows "sint (MaximumSupportedResolution P) = 2 ^ (nat (sint (GMaxTextureMipCount P)) - 1)"
proof -
  have m: "sint (GMaxTextureMipCount P - 1) = sint (GMaxTextureMipCount P) - 1"
    using assms(1) by (rule sint_minus_one)
  have n: "nat (sint (GMaxTextureMipCount P) - 1) = nat (sint (GMaxTextureMipCount P)) - 1"
    using assms(1) by simp
  have "nat (sint (GMaxTextureMipCount P)) - 1 < 31" using assms by simp
  then show ?thesis
    using sint_push_bit_one [of "nat (sint (GMaxTextureMipCount P)) - 1"]
    by (simp add: MaximumSupportedResolution_def m n)
qed

lemma IsImportResolutionValid_unfold:
  "IsImportResolutionValid P W H allow =
     (sint W \<le> sint (MaximumSupportedResolution P) \<and> sint H \<le> sint (MaximumSupportedResolution P) \<and>
      (allow \<or> (IsPowerOfTwo P W \<and> IsPowerOfTwo P H)) \<and>
      sint W \<le> 8192 \<and> sint H \<le> 8192)"
  by (auto simp: IsImportResolutionValid_def Let_def word_sless_alt MAX_TEXTURE_SIZE_def)

lemma IsImportResolutionValid_IsPowerOfTwo_update:
  "IsImportResolutionValid (P\<lparr>IsPowerOfTwo := q\<rparr>) W H True = IsImportResolutionValid P W H True"
  by (simp add: IsImportResolutionValid_unfold MaximumSupportedResolution_def)

lemma Import_IsPowerOfTwo_update:
  "ImportPNG (P\<lparr>IsPowerOfTwo := q\<rparr>) W st = ImportPNG P W st"
  "ImportJPEG (P\<lparr>IsPowerOfTwo := q\<rparr>) W st = ImportJPEG P W st"
  "ImportBMP (P\<lparr>IsPowerOfTwo := q\<rparr>) W st = ImportBMP P W st"
  "ImportTGA (P\<lparr>IsPowerOfTwo := q\<rparr>) Buffer Length st = ImportTGA P Buffer Length st"
  "TrySetCompressed (P\<lparr>IsPowerOfTwo := q\<rparr>) f Buffer Length st = TrySetCompressed P f Buffer Length st"
  by (simp_all add: ImportPNG_def ImportJPEG_def ImportBMP_def ImportTGA_def TrySetCompressed_def
      IsImportResolutionValid_IsPowerOfTwo_update TGAHeaderFits_def Let_def
      split: prod.splits option.splits)

lemma ImportBufferAsImage_IsPowerOfTwo_update:
  "ImportBufferAsImage (P\<lparr>IsPowerOfTwo := q\<rparr>) Buffer Length st = ImportBufferAsImage P Buffer Length st"
  by (simp add: ImportBufferAsImage_def Import_IsPowerOfTwo_update split: prod.splits option.splits)

lemma TrySetCompressed_Recognized:
  "fst (TrySetCompressed P f Buffer Length st) = Recognized P f Buffer Length"
  "OutImage (snd (TrySetCompressed P f Buffer Length st)) = OutImage st"
  "OutError (snd (TrySetCompressed P f Buffer Length st)) = OutError st"
  by (simp_all add: TrySetCompressed_def Recognized_def split: option.splits)

lemma TrySetCompressed_cases:
  obtains st' where "TrySetCompressed P f Buffer Length st = (Recognized P f Buffer Length, st')"
    "OutImage st' = OutImage st" "OutError st' = OutError st"
  using TrySetCompressed_Recognized [of P f Buffer Length st]
  by (cases "TrySetCompressed P f Buffer Length st") auto

lemma Import_rejects_resolution:
  assumes "\<not> IsImportResolutionValid P w h True"
  shows "GetWidth W = w \<Longrightarrow> GetHeight W = h \<Longrightarrow>
           ImportPNG P W st = (False, st\<lparr>OutError := ResolutionError w h\<rparr>)"
    and "GetWidth W = w \<Longrightarrow> GetHeight W = h \<Longrightarrow>
           ImportJPEG P W st = (False, st\<lparr>OutError := ResolutionError w h\<rparr>)"
    and "GetWidth W = w \<Longrightarrow> GetHeight W = h \<Longrightarrow>
           ImportBMP P W st = (False, st\<lparr>OutError := ResolutionError w h\<rparr>)"
    and "TGAHeaderFits P Length \<Longrightarrow> TGATypeSupported (TGAFileHeader P Buffer) \<Longrightarrow>
         ucast (Width (TGAFileHeader P Buffer)) = w \<Longrightarrow> ucast (Height (TGAFileHeader P Buffer)) = h \<Longrightarrow>
           ImportTGA P Buffer Length st = (False, st\<lparr>OutError := ResolutionError w h\<rparr>)"
  using assms by (simp_all add: ImportPNG_def ImportJPEG_def ImportBMP_def ImportTGA_def)

lemma ImportBufferAsImage_rejects_resolution:
  assumes d: "DecodedDimensions P Buffer Length = Some (w, h)"
    and r: "\<not> IsImportResolutionValid P w h True"
  shows "fst (ImportBufferAsImage P Buffer Length st) = False \<and>
         OutError (snd (ImportBufferAsImage P Buffer Length st)) = ResolutionError w h \<and>
         OutImage (snd (ImportBufferAsImage P Buffer Length st)) = OutImage st"
proof -
  obtain s1 where s1: "TrySetCompressed P PNG Buffer Length st = (Recognized P PNG Buffer Length, s1)"
    "OutImage s1 = OutImage st" "OutError s1 = OutError st"
    by (rule TrySetCompressed_cases)
  obtain s2 where s2: "TrySetCompressed P JPEG Buffer Length s1 = (Recognized P JPEG Buffer Length, s2)"
    "OutImage s2 = OutImage s1" "OutError s2 = OutError s1"
    by (rule TrySetCompressed_cases)
  obtain s3 where s3: "TrySetCompressed P BMP Buffer Length s2 = (Recognized P BMP Buffer Length, s3)"
    "OutImage s3 = OutImage s2" "OutError s3 = OutError s2"
    by (rule TrySetCompressed_cases)
  show ?thesis
    using d s1 s2 s3 Import_rejects_resolution [OF r]
    by (auto simp: ImportBufferAsImage_def DecodedDimensions_def split: option.splits if_splits)
qed

lemma ResolutionError_16385:
  "ResolutionError 16385 16385 = ''Texture resolution is not supported: 16385 x 16385''"
  by (simp add: ResolutionError_def Printf_d_def Printf_int_def StringOfNat.simps DigitChar_def)

text \<open>
  C1 (as the code has it). For a platform mip count from 1 to 31, where the shift is defined,
  \<open>IsImportResolutionValid\<close> returns true exactly when both dimensions are at most 8192
  and at most \<open>2 ^ (GMaxTextureMipCount - 1)\<close>, and non-power-of-two sizes are allowed or
  both dimensions pass the engine's power-of-two test. The importer always passes true for
  the flag, so its result does not depend on that test. A buffer whose decoded dimensions
  are 16385 by 16385 is rejected with the resolution error and the image is left alone;
  8192 by 8192 passes the check when the mip count is at least 14.
\<close>

theorem IsImportResolutionValid_iff:
  assumes "1 \<le> sint (GMaxTextureMipCount P)" and "sint (GMaxTextureMipCount P) \<le> 31"
  shows
    "IsImportResolutionValid P W H bAllowNonPowerOfTwo =
       (sint W \<le> 8192 \<and> sint H \<le> 8192 \<and>
        sint W \<le> 2 ^ (nat (sint (GMaxTextureMipCount P)) - 1) \<and>
        sint H \<le> 2 ^ (nat (sint (GMaxTextureMipCount P)) - 1) \<and>
        (bAllowNonPowerOfTwo \<or> (IsPowerOfTwo P W \<and> IsPowerOfTwo P H))) \<and>
     ImportBufferAsImage (P\<lparr>IsPowerOfTwo := q\<rparr>) Buffer Length st = ImportBufferAsImage P Buffer Length st \<and>
     (DecodedDimensions P Buffer Length = Some (16385, 16385) \<longrightarrow>
        fst (ImportBufferAsImage P Buffer Length st) = False \<and>
        OutError (snd (ImportBufferAsImage P Buffer Length st)) =
          ''Texture resolution is not supported: 16385 x 16385'' \<and>
        OutImage (snd (ImportBufferAsImage P Buffer Length st)) = OutImage st) \<and>
     (14 \<le> sint (GMaxTextureMipCount P) \<longrightarrow> IsImportResolutionValid P 8192 8192 True)"
proof -
  note m = MaximumSupportedResolution_sint [OF assms]
  have iff: "IsImportResolutionValid P W H bAllowNonPowerOfTwo =
       (sint W \<le> 8192 \<and> sint H \<le> 8192 \<and>
        sint W \<le> 2 ^ (nat (sint (GMaxTextureMipCount P)) - 1) \<and>
        sint H \<le> 2 ^ (nat (sint (GMaxTextureMipCount P)) - 1) \<and>
        (bAllowNonPowerOfTwo \<or> (IsPowerOfTwo P W \<and> IsPowerOfTwo P H)))"
    by (auto simp: IsImportResolutionValid_unfold m)
  have big: "\<not> IsImportResolutionValid P 16385 16385 True"
    by (simp add: IsImportResolutionValid_unfold)
  have rej: "DecodedDimensions P Buffer Length = Some (16385, 16385) \<longrightarrow>
        fst (ImportBufferAsImage P Buffer Length st) = False \<and>
        OutError (snd (ImportBufferAsImage P Buffer Length st)) =
          ''Texture resolution is not supported: 16385 x 16385'' \<and>
        OutImage (snd (ImportBufferAsImage P Buffer Length st)) = OutImage st"
    using ImportBufferAsImage_rejects_resolution [OF _ big, of Buffer Length st]
    by (simp only: ResolutionError_16385) blast
  have cap: "14 \<le> sint (GMaxTextureMipCount P) \<longrightarrow> IsImportResolutionValid P 8192 8192 True"
  proof
    assume g: "14 \<le> sint (GMaxTextureMipCount P)"
    then have "13 \<le> nat (sint (GMaxTextureMipCount P)) - 1" by simp
    then have "(2::int) ^ 13 \<le> 2 ^ (nat (sint (GMaxTextureMipCount P)) - 1)"
      by (intro power_increasing) simp_all
    then show "IsImportResolutionValid P 8192 8192 True"
      by (simp add: IsImportResolutionValid_unfold m)
  qed
  show ?thesis
    using iff ImportBufferAsImage_IsPowerOfTwo_update rej cap by blast
qed

theorem IsImportResolutionValid_iff_witness:
  "1 \<le> sint (GMaxTextureMipCount (TestPlatform BigPNG Map.empty)) \<and>
   sint (GMaxTextureMipCount (TestPlatform BigPNG Map.empty)) \<le> 31 \<and>
   14 \<le> sint (GMaxTextureMipCount (TestPlatform BigPNG Map.empty)) \<and>
   DecodedDimensions (TestPlatform BigPNG Map.empty) [] 0 = Some (16385, 16385) \<and>
   fst (ImportBufferAsImage (TestPlatform BigPNG Map.empty) [] 0 EmptyState) = False \<and>
   OutError (snd (ImportBufferAsImage (TestPlatform BigPNG Map.empty) [] 0 EmptyState)) =
     ''Texture resolution is not supported: 16385 x 16385'' \<and>
   IsImportResolutionValid (TestPlatform BigPNG Map.empty) 8192 8192 True \<and>
   IsImportResolutionValid (TestPlatform BigPNG Map.empty) 8192 4096 False \<and>
   IsImportResolutionValid (TestPlatform BigPNG Map.empty) 8192 4097 False = False"
proof -
  have g: "1 \<le> sint (GMaxTextureMipCount (TestPlatform BigPNG Map.empty))"
    "sint (GMaxTextureMipCount (TestPlatform BigPNG Map.empty)) \<le> 31"
    "14 \<le> sint (GMaxTextureMipCount (TestPlatform BigPNG Map.empty))"
    by (simp_all add: TestPlatform_def)
  have d: "DecodedDimensions (TestPlatform BigPNG Map.empty) [] 0 = Some (16385, 16385)"
    by (simp add: DecodedDimensions_def Recognized_def TestPlatform_def BigPNG_def TestWrapper_def)
  have p: "IsPowerOfTwo (TestPlatform BigPNG Map.empty) 8192"
    "IsPowerOfTwo (TestPlatform BigPNG Map.empty) 4096"
    "\<not> IsPowerOfTwo (TestPlatform BigPNG Map.empty) 4097"
    by (simp_all add: TestPlatform_def)
  have n: "nat (sint (GMaxTextureMipCount (TestPlatform BigPNG Map.empty))) - 1 = 13"
    by (simp add: TestPlatform_def)
  show ?thesis
    using g d p
      IsImportResolutionValid_iff [OF g(1,2), of 8192 4096 False _ "[]" 0 EmptyState]
      IsImportResolutionValid_iff [OF g(1,2), of 8192 4097 False _ "[]" 0 EmptyState]
    by (simp add: TestPlatform_def)
qed

text \<open>
  C1 as stated fails where the platform's mip count is below 14: with 13 the largest
  supported resolution is 4096, and 8192 by 8192 does not pass the check.
\<close>

theorem IsImportResolutionValid_8192_counterexample:
  "IsImportResolutionValid ((TestPlatform Map.empty Map.empty)\<lparr>GMaxTextureMipCount := 13\<rparr>) 8192 8192 True = False"
  by (simp add: IsImportResolutionValid_def MaximumSupportedResolution_def TestPlatform_def
      MAX_TEXTURE_SIZE_def Let_def)

section \<open>The TGA header test: properties\<close>

lemma ImportBufferAsImage_unrecognized:
  assumes "Recognized P PNG Buffer Length = None"
    and "Recognized P JPEG Buffer Length = None"
    and "Recognized P BMP Buffer Length = None"
  obtains st' where "ImportBufferAsImage P Buffer Length st = ImportTGA P Buffer Length st'"
    and "OutImage st' = OutImage st" and "OutError st' = OutError st"
proof -
  obtain s1 where s1: "TrySetCompressed P PNG Buffer Length st = (Recognized P PNG Buffer Length, s1)"
    "OutImage s1 = OutImage st" "OutError s1 = OutError st"
    by (rule TrySetCompressed_cases)
  obtain s2 where s2: "TrySetCompressed P JPEG Buffer Length s1 = (Recognized P JPEG Buffer Length, s2)"
    "OutImage s2 = OutImage s1" "OutError s2 = OutError s1"
    by (rule TrySetCompressed_cases)
  obtain s3 where s3: "TrySetCompressed P BMP Buffer Length s2 = (Recognized P BMP Buffer Length, s3)"
    "OutImage s3 = OutImage s2" "OutError s3 = OutError s2"
    by (rule TrySetCompressed_cases)
  have "ImportBufferAsImage P Buffer Length st = ImportTGA P Buffer Length s3"
    using assms s1 s2 s3 by (simp add: ImportBufferAsImage_def)
  then show thesis using s1 s2 s3 by (intro that [of s3]) simp_all
qed

lemma ResolutionError_not_TGA_text:
  "ResolutionError w h \<noteq> ''TGA file contains data in an unsupported format.''"
  by (simp add: ResolutionError_def)

lemma ImportTGA_unsupported_iff:
  "(fst (ImportTGA P Buffer Length st) = False \<and>
    OutError (snd (ImportTGA P Buffer Length st)) = ''TGA file contains data in an unsupported format.'')
   = (\<not> (TGAHeaderFits P Length \<and> TGATypeSupported (TGAFileHeader P Buffer)))"
  by (auto simp: ImportTGA_def Let_def ResolutionError_not_TGA_text split: prod.splits)

lemma TGAHeaderFits_nonneg:
  "0 \<le> sint Length \<Longrightarrow> TGAHeaderFits P Length = (int (sizeof_FTGAFileHeader P) \<le> sint Length)"
  by (simp add: TGAHeaderFits_def uint_scast_nonneg)

text \<open>
  C2. A buffer that no wrapper (PNG, JPEG, BMP) recognizes is turned away with the text
  "TGA file contains data in an unsupported format." exactly when it is shorter than the TGA
  file header or its header is none of: no colour map with image type 2, 3 or 10; colour
  map type 1 with image type 1 and 8 bits per pixel. In every other case the buffer is
  taken as TGA. The length is that of a buffer, so it is not negative.
\<close>

theorem ImportBufferAsImage_TGA_acceptance:
  assumes "Recognized P PNG Buffer Length = None"
    and "Recognized P JPEG Buffer Length = None"
    and "Recognized P BMP Buffer Length = None"
    and "0 \<le> sint Length"
  shows
    "(fst (ImportBufferAsImage P Buffer Length st) = False \<and>
      OutError (snd (ImportBufferAsImage P Buffer Length st)) =
        ''TGA file contains data in an unsupported format.'')
     = (\<not> (int (sizeof_FTGAFileHeader P) \<le> sint Length \<and>
           ((ColorMapType (TGAFileHeader P Buffer) = 0 \<and>
               (ImageTypeCode (TGAFileHeader P Buffer) = 2 \<or>
                ImageTypeCode (TGAFileHeader P Buffer) = 3 \<or>
                ImageTypeCode (TGAFileHeader P Buffer) = 10)) \<or>
            (ColorMapType (TGAFileHeader P Buffer) = 1 \<and>
             ImageTypeCode (TGAFileHeader P Buffer) = 1 \<and>
             BitsPerPixel (TGAFileHeader P Buffer) = 8))))"
proof -
  obtain st' where r: "ImportBufferAsImage P Buffer Length st = ImportTGA P Buffer Length st'"
    using assms(1-3) by (rule ImportBufferAsImage_unrecognized)
  have t: "TGATypeSupported (TGAFileHeader P Buffer) =
      ((ColorMapType (TGAFileHeader P Buffer) = 0 \<and>
               (ImageTypeCode (TGAFileHeader P Buffer) = 2 \<or>
                ImageTypeCode (TGAFileHeader P Buffer) = 3 \<or>
                ImageTypeCode (TGAFileHeader P Buffer) = 10)) \<or>
            (ColorMapType (TGAFileHeader P Buffer) = 1 \<and>
             ImageTypeCode (TGAFileHeader P Buffer) = 1 \<and>
             BitsPerPixel (TGAFileHeader P Buffer) = 8))"
    by (auto simp: TGATypeSupported_def)
  show ?thesis
    unfolding r ImportTGA_unsupported_iff TGAHeaderFits_nonneg [OF assms(4)] t ..
qed

lemma TestPlatform_unrecognized:
  "Recognized (TestPlatform Map.empty files) f Buffer Length = None"
  by (simp add: Recognized_def TestPlatform_def)

theorem ImportBufferAsImage_TGA_acceptance_witness:
  "Recognized (TestPlatform Map.empty Map.empty) PNG (TGABuffer 0 2 32) 22 = None \<and>
   Recognized (TestPlatform Map.empty Map.empty) JPEG (TGABuffer 0 2 32) 22 = None \<and>
   Recognized (TestPlatform Map.empty Map.empty) BMP (TGABuffer 0 2 32) 22 = None \<and>
   0 \<le> sint (22 :: int32) \<and>
   int (sizeof_FTGAFileHeader (TestPlatform Map.empty Map.empty)) \<le> sint (22 :: int32) \<and>
   ColorMapType (TGAFileHeader (TestPlatform Map.empty Map.empty) (TGABuffer 0 2 32)) = 0 \<and>
   ImageTypeCode (TGAFileHeader (TestPlatform Map.empty Map.empty) (TGABuffer 0 2 32)) = 2 \<and>
   fst (ImportBufferAsImage (TestPlatform Map.empty Map.empty) (TGABuffer 0 2 32) 22 EmptyState) = True \<and>
   ColorMapType (TGAFileHeader (TestPlatform Map.empty Map.empty) (TGABuffer 1 2 32)) = 1 \<and>
   ImageTypeCode (TGAFileHeader (TestPlatform Map.empty Map.empty) (TGABuffer 1 2 32)) = 2 \<and>
   fst (ImportBufferAsImage (TestPlatform Map.empty Map.empty) (TGABuffer 1 2 32) 22 EmptyState) = False \<and>
   OutError (snd (ImportBufferAsImage (TestPlatform Map.empty Map.empty) (TGABuffer 1 2 32) 22 EmptyState)) =
     ''TGA file contains data in an unsupported format.''"
proof -
  let ?P = "TestPlatform Map.empty Map.empty"
  have h: "TGAFileHeader ?P (TGABuffer 1 2 32) =
      \<lparr>ColorMapType = 1, ImageTypeCode = 2, Width = 1, Height = 1, BitsPerPixel = 32\<rparr>"
    by (simp add: TestPlatform_def PackedTGAHeader_def TGABuffer_def word_cat_eq)
  have g: "TGAFileHeader ?P (TGABuffer 0 2 32) =
      \<lparr>ColorMapType = 0, ImageTypeCode = 2, Width = 1, Height = 1, BitsPerPixel = 32\<rparr>"
    by (simp add: TestPlatform_def PackedTGAHeader_def TGABuffer_def word_cat_eq)
  have ok: "fst (ImportBufferAsImage ?P (TGABuffer 0 2 32) 22 EmptyState) = True"
    by (simp add: TestRun_defs TGABuffer_def)
  have s: "sizeof_FTGAFileHeader ?P = 18"
    by (simp add: TestPlatform_def)
  show ?thesis
    using ImportBufferAsImage_TGA_acceptance [of ?P "TGABuffer 1 2 32" 22 EmptyState]
      ImportBufferAsImage_TGA_acceptance [of ?P "TGABuffer 0 2 32" 22 EmptyState]
    by (simp add: TestPlatform_unrecognized h g s ok)
qed

section \<open>The dispatch on the wrappers\<close>

lemma TrySetCompressed_eq:
  "TrySetCompressed P f Buffer Length st =
     (Recognized P f Buffer Length, st\<lparr>Calls := Calls st @ Attempts P [f]\<rparr>)"
  by (simp add: TrySetCompressed_def Recognized_def Attempts_def split: option.splits)

lemma ImportBufferAsImage_dispatch:
  "ImportBufferAsImage P Buffer Length st =
     (case Recognized P PNG Buffer Length of
        Some W \<Rightarrow> ImportPNG P W (st\<lparr>Calls := Calls st @ Attempts P [PNG]\<rparr>)
      | None \<Rightarrow>
     (case Recognized P JPEG Buffer Length of
        Some W \<Rightarrow> ImportJPEG P W (st\<lparr>Calls := Calls st @ Attempts P [PNG, JPEG]\<rparr>)
      | None \<Rightarrow>
     (case Recognized P BMP Buffer Length of
        Some W \<Rightarrow> ImportBMP P W (st\<lparr>Calls := Calls st @ Attempts P [PNG, JPEG, BMP]\<rparr>)
      | None \<Rightarrow> ImportTGA P Buffer Length (st\<lparr>Calls := Calls st @ Attempts P [PNG, JPEG, BMP]\<rparr>))))"
proof -
  have a: "Attempts P [PNG] @ Attempts P [JPEG] = Attempts P [PNG, JPEG]"
    "Attempts P [PNG, JPEG] @ Attempts P [BMP] = Attempts P [PNG, JPEG, BMP]"
    by (simp_all add: Attempts_def)
  show ?thesis
    by (simp add: ImportBufferAsImage_def TrySetCompressed_eq a split: option.splits)
qed

section \<open>Grayscale images\<close>

lemma SelectFormat_Gray8:
  "sint d \<le> 8 \<Longrightarrow> SelectFormatPNG Gray d = (TSF_G8, Gray, 8)"
  "sint d \<le> 8 \<Longrightarrow> SelectFormatJPEG Gray d = (TSF_G8, Gray, 8)"
  by (simp_all add: SelectFormatPNG_def SelectFormatJPEG_def word_sle_eq)

lemma ImportPNG_Gray8:
  assumes "GetFormat W = Gray" "sint (GetBitDepth W) \<le> 8" "fst (ImportPNG P W st)"
  shows "Format (OutImage (snd (ImportPNG P W st))) = TSF_G8 \<and> SRGB (OutImage (snd (ImportPNG P W st)))"
  using assms
  by (auto simp: ImportPNG_def SelectFormat_Gray8 Init2D_def Let_def word_sless_alt
      split: if_splits option.splits)

lemma ImportJPEG_Gray8:
  assumes "GetFormat W = Gray" "sint (GetBitDepth W) \<le> 8" "fst (ImportJPEG P W st)"
  shows "Format (OutImage (snd (ImportJPEG P W st))) = TSF_G8 \<and> SRGB (OutImage (snd (ImportJPEG P W st)))"
  using assms
  by (auto simp: ImportJPEG_def SelectFormat_Gray8 Init2D_def Let_def word_sless_alt
      split: if_splits option.splits)

lemma ImportTGA_Grayscale:
  assumes "fst (ImportTGA P Buffer Length st)"
    and "ImageTypeCode (TGAFileHeader P Buffer) = 3"
    and "CompressionSettings (fst (snd (DecompressTGA P Buffer (OutImage st) (OutError st)))) = TC_Grayscale"
  shows "SRGB (OutImage (snd (ImportTGA P Buffer Length st))) = False"
  using assms
  by (auto simp: ImportTGA_def Let_def split: if_splits prod.splits)

text \<open>
  C3 (as the code has it). A PNG or a JPEG whose wrapper reports grayscale at a bit depth of
  at most 8, when the import succeeds, gives an image of format \<open>TSF_G8\<close> with \<open>SRGB\<close>
  true. A TGA of image type 3 (grayscale) whose decompressed image carries the compression
  setting \<open>TC_Grayscale\<close>, when the import succeeds, has \<open>SRGB\<close> false: the importer
  makes such an image linear.
\<close>

theorem ImportBufferAsImage_grayscale8:
  "(Recognized P PNG Buffer Length = Some W \<and> GetFormat W = Gray \<and> sint (GetBitDepth W) \<le> 8 \<and>
    fst (ImportBufferAsImage P Buffer Length st) \<longrightarrow>
      Format (OutImage (snd (ImportBufferAsImage P Buffer Length st))) = TSF_G8 \<and>
      SRGB (OutImage (snd (ImportBufferAsImage P Buffer Length st))) = True) \<and>
   (Recognized P PNG Buffer Length = None \<and> Recognized P JPEG Buffer Length = Some W \<and>
    GetFormat W = Gray \<and> sint (GetBitDepth W) \<le> 8 \<and>
    fst (ImportBufferAsImage P Buffer Length st) \<longrightarrow>
      Format (OutImage (snd (ImportBufferAsImage P Buffer Length st))) = TSF_G8 \<and>
      SRGB (OutImage (snd (ImportBufferAsImage P Buffer Length st))) = True) \<and>
   (Recognized P PNG Buffer Length = None \<and> Recognized P JPEG Buffer Length = None \<and>
    Recognized P BMP Buffer Length = None \<and>
    ImageTypeCode (TGAFileHeader P Buffer) = 3 \<and>
    CompressionSettings (fst (snd (DecompressTGA P Buffer (OutImage st) (OutError st)))) = TC_Grayscale \<and>
    fst (ImportBufferAsImage P Buffer Length st) \<longrightarrow>
      SRGB (OutImage (snd (ImportBufferAsImage P Buffer Length st))) = False)"
proof (intro conjI impI)
  assume a: "Recognized P PNG Buffer Length = Some W \<and> GetFormat W = Gray \<and> sint (GetBitDepth W) \<le> 8 \<and>
    fst (ImportBufferAsImage P Buffer Length st)"
  then have r: "ImportBufferAsImage P Buffer Length st =
      ImportPNG P W (st\<lparr>Calls := Calls st @ Attempts P [PNG]\<rparr>)"
    by (simp add: ImportBufferAsImage_dispatch)
  from a show "Format (OutImage (snd (ImportBufferAsImage P Buffer Length st))) = TSF_G8"
    and "SRGB (OutImage (snd (ImportBufferAsImage P Buffer Length st))) = True"
    using ImportPNG_Gray8 [of W P "st\<lparr>Calls := Calls st @ Attempts P [PNG]\<rparr>"]
    by (simp_all add: r)
next
  assume a: "Recognized P PNG Buffer Length = None \<and> Recognized P JPEG Buffer Length = Some W \<and>
    GetFormat W = Gray \<and> sint (GetBitDepth W) \<le> 8 \<and>
    fst (ImportBufferAsImage P Buffer Length st)"
  then have r: "ImportBufferAsImage P Buffer Length st =
      ImportJPEG P W (st\<lparr>Calls := Calls st @ Attempts P [PNG, JPEG]\<rparr>)"
    by (simp add: ImportBufferAsImage_dispatch)
  from a show "Format (OutImage (snd (ImportBufferAsImage P Buffer Length st))) = TSF_G8"
    and "SRGB (OutImage (snd (ImportBufferAsImage P Buffer Length st))) = True"
    using ImportJPEG_Gray8 [of W P "st\<lparr>Calls := Calls st @ Attempts P [PNG, JPEG]\<rparr>"]
    by (simp_all add: r)
next
  assume a: "Recognized P PNG Buffer Length = None \<and> Recognized P JPEG Buffer Length = None \<and>
    Recognized P BMP Buffer Length = None \<and>
    ImageTypeCode (TGAFileHeader P Buffer) = 3 \<and>
    CompressionSettings (fst (snd (DecompressTGA P Buffer (OutImage st) (OutError st)))) = TC_Grayscale \<and>
    fst (ImportBufferAsImage P Buffer Length st)"
  then have r: "ImportBufferAsImage P Buffer Length st =
      ImportTGA P Buffer Length (st\<lparr>Calls := Calls st @ Attempts P [PNG, JPEG, BMP]\<rparr>)"
    by (simp add: ImportBufferAsImage_dispatch)
  from a show "SRGB (OutImage (snd (ImportBufferAsImage P Buffer Length st))) = False"
    using ImportTGA_Grayscale [of P Buffer Length "st\<lparr>Calls := Calls st @ Attempts P [PNG, JPEG, BMP]\<rparr>"]
    by (simp add: r)
qed

lemma TestPlatform_Recognized:
  "Recognized (TestPlatform reports files) f Buffer Length = reports f"
  by (simp add: Recognized_def TestPlatform_def)

lemma run_GrayPNG8:
  "ImportBufferAsImage (TestPlatform GrayPNG8 Map.empty) [] 0 EmptyState =
     (True, \<lparr>OutImage = \<lparr>SizeX = 2, SizeY = 2, Format = TSF_G8, RawData = replicate 4 0, SRGB = True,
        CompressionSettings = TC_Default, ModificationTime = 0\<rparr>,
       OutError = [], Calls = [CallSetCompressed PNG, CallGetRaw PNG]\<rparr>)"
  by (simp add: TestRun_defs GrayPNG8_def)

lemma run_GrayJPEG8:
  "ImportBufferAsImage (TestPlatform GrayJPEG8 Map.empty) [] 0 EmptyState =
     (True, \<lparr>OutImage = \<lparr>SizeX = 2, SizeY = 2, Format = TSF_G8, RawData = replicate 4 0, SRGB = True,
        CompressionSettings = TC_Default, ModificationTime = 0\<rparr>,
       OutError = [], Calls = [CallSetCompressed PNG, CallSetCompressed JPEG, CallGetRaw JPEG]\<rparr>)"
  by (simp add: TestRun_defs GrayJPEG8_def)

lemma run_GrayTGA8:
  "ImportBufferAsImage (TestPlatform Map.empty Map.empty) (TGABuffer 0 3 8) 22 EmptyState =
     (True, \<lparr>OutImage = \<lparr>SizeX = 1, SizeY = 1, Format = TSF_G8, RawData = [255, 255, 255, 255], SRGB = False,
        CompressionSettings = TC_Grayscale, ModificationTime = 0\<rparr>,
       OutError = [],
       Calls = [CallSetCompressed PNG, CallSetCompressed JPEG, CallSetCompressed BMP, CallDecompressTGA]\<rparr>)"
  by (simp add: TestRun_defs TGABuffer_def word_cat_eq)

theorem ImportBufferAsImage_grayscale8_witness:
  "Recognized (TestPlatform GrayPNG8 Map.empty) PNG [] 0 = Some (TestWrapper 2 2 8 Gray) \<and>
   GetFormat (TestWrapper 2 2 8 Gray) = Gray \<and> sint (GetBitDepth (TestWrapper 2 2 8 Gray)) \<le> 8 \<and>
   fst (ImportBufferAsImage (TestPlatform GrayPNG8 Map.empty) [] 0 EmptyState) \<and>
   Format (OutImage (snd (ImportBufferAsImage (TestPlatform GrayPNG8 Map.empty) [] 0 EmptyState))) = TSF_G8 \<and>
   SRGB (OutImage (snd (ImportBufferAsImage (TestPlatform GrayPNG8 Map.empty) [] 0 EmptyState))) = True \<and>
   Recognized (TestPlatform GrayJPEG8 Map.empty) PNG [] 0 = None \<and>
   Recognized (TestPlatform GrayJPEG8 Map.empty) JPEG [] 0 = Some (TestWrapper 2 2 8 Gray) \<and>
   fst (ImportBufferAsImage (TestPlatform GrayJPEG8 Map.empty) [] 0 EmptyState) \<and>
   Format (OutImage (snd (ImportBufferAsImage (TestPlatform GrayJPEG8 Map.empty) [] 0 EmptyState))) = TSF_G8 \<and>
   SRGB (OutImage (snd (ImportBufferAsImage (TestPlatform GrayJPEG8 Map.empty) [] 0 EmptyState))) = True \<and>
   Recognized (TestPlatform Map.empty Map.empty) PNG (TGABuffer 0 3 8) 22 = None \<and>
   Recognized (TestPlatform Map.empty Map.empty) JPEG (TGABuffer 0 3 8) 22 = None \<and>
   Recognized (TestPlatform Map.empty Map.empty) BMP (TGABuffer 0 3 8) 22 = None \<and>
   ImageTypeCode (TGAFileHeader (TestPlatform Map.empty Map.empty) (TGABuffer 0 3 8)) = 3 \<and>
   CompressionSettings (fst (snd (DecompressTGA (TestPlatform Map.empty Map.empty) (TGABuffer 0 3 8)
     (OutImage EmptyState) (OutError EmptyState)))) = TC_Grayscale \<and>
   fst (ImportBufferAsImage (TestPlatform Map.empty Map.empty) (TGABuffer 0 3 8) 22 EmptyState) \<and>
   SRGB (OutImage (snd (ImportBufferAsImage (TestPlatform Map.empty Map.empty) (TGABuffer 0 3 8) 22 EmptyState))) = False"
proof -
  have w: "GetFormat (TestWrapper 2 2 8 Gray) = Gray" "sint (GetBitDepth (TestWrapper 2 2 8 Gray)) \<le> 8"
    by (simp_all add: TestWrapper_def)
  have t: "ImageTypeCode (TGAFileHeader (TestPlatform Map.empty Map.empty) (TGABuffer 0 3 8)) = 3"
    "CompressionSettings (fst (snd (DecompressTGA (TestPlatform Map.empty Map.empty) (TGABuffer 0 3 8)
       (OutImage EmptyState) (OutError EmptyState)))) = TC_Grayscale"
    by (simp_all add: TestPlatform_def PackedTGAHeader_def TGABuffer_def TestDecompressTGA_def Let_def
        Init2D_def)
  show ?thesis
    using w t
      ImportBufferAsImage_grayscale8 [of "TestPlatform GrayPNG8 Map.empty" "[]" 0 "TestWrapper 2 2 8 Gray" EmptyState]
      ImportBufferAsImage_grayscale8 [of "TestPlatform GrayJPEG8 Map.empty" "[]" 0 "TestWrapper 2 2 8 Gray" EmptyState]
      ImportBufferAsImage_grayscale8 [of "TestPlatform Map.empty Map.empty" "TGABuffer 0 3 8" 22 "TestWrapper 2 2 8 Gray" EmptyState]
    by (simp add: TestPlatform_Recognized run_GrayPNG8 run_GrayJPEG8 run_GrayTGA8)
      (simp add: GrayPNG8_def GrayJPEG8_def)
qed

text \<open>
  C3 as stated fails for TGA: an 8-bit grayscale TGA (type 3) is imported with success and
  format \<open>TSF_G8\<close>, and its \<open>SRGB\<close> flag is false.
\<close>

theorem ImportBufferAsImage_grayscale_TGA_counterexample:
  "TGATypeSupported (TGAFileHeader (TestPlatform Map.empty Map.empty) (TGABuffer 0 3 8)) \<and>
   BitsPerPixel (TGAFileHeader (TestPlatform Map.empty Map.empty) (TGABuffer 0 3 8)) = 8 \<and>
   fst (ImportBufferAsImage (TestPlatform Map.empty Map.empty) (TGABuffer 0 3 8) 22 EmptyState) = True \<and>
   Format (OutImage (snd (ImportBufferAsImage (TestPlatform Map.empty Map.empty) (TGABuffer 0 3 8) 22 EmptyState))) = TSF_G8 \<and>
   SRGB (OutImage (snd (ImportBufferAsImage (TestPlatform Map.empty Map.empty) (TGABuffer 0 3 8) 22 EmptyState))) = False"
  by (simp add: run_GrayTGA8)
    (simp add: TestPlatform_def PackedTGAHeader_def TGABuffer_def TGATypeSupported_def)

section \<open>The cases of the import\<close>

lemma EmptyState_image: "OutImage EmptyState = EmptyImage" "OutError EmptyState = []"
  by (simp_all add: EmptyState_def)

lemma ImportBufferAsImage_cases:
  obtains
    (PNG) W st' where "Recognized P PNG Buffer Length = Some W"
      and "ImportBufferAsImage P Buffer Length st = ImportPNG P W st'"
      and "OutImage st' = OutImage st" and "OutError st' = OutError st"
  | (JPEG) W st' where "Recognized P PNG Buffer Length = None"
      and "Recognized P JPEG Buffer Length = Some W"
      and "ImportBufferAsImage P Buffer Length st = ImportJPEG P W st'"
      and "OutImage st' = OutImage st" and "OutError st' = OutError st"
  | (BMP) W st' where "Recognized P PNG Buffer Length = None"
      and "Recognized P JPEG Buffer Length = None"
      and "Recognized P BMP Buffer Length = Some W"
      and "ImportBufferAsImage P Buffer Length st = ImportBMP P W st'"
      and "OutImage st' = OutImage st" and "OutError st' = OutError st"
  | (TGA) st' where "Recognized P PNG Buffer Length = None"
      and "Recognized P JPEG Buffer Length = None"
      and "Recognized P BMP Buffer Length = None"
      and "ImportBufferAsImage P Buffer Length st = ImportTGA P Buffer Length st'"
      and "OutImage st' = OutImage st" and "OutError st' = OutError st"
proof (cases "Recognized P PNG Buffer Length")
  case (Some W)
  then show thesis
    by (intro PNG [of W "st\<lparr>Calls := Calls st @ Attempts P [PNG]\<rparr>"])
      (simp_all add: ImportBufferAsImage_dispatch)
next
  case png: None
  show thesis
  proof (cases "Recognized P JPEG Buffer Length")
    case (Some W)
    with png show thesis
      by (intro JPEG [of W "st\<lparr>Calls := Calls st @ Attempts P [PNG, JPEG]\<rparr>"])
        (simp_all add: ImportBufferAsImage_dispatch)
  next
    case jpeg: None
    show thesis
    proof (cases "Recognized P BMP Buffer Length")
      case (Some W)
      with png jpeg show thesis
        by (intro BMP [of W "st\<lparr>Calls := Calls st @ Attempts P [PNG, JPEG, BMP]\<rparr>"])
          (simp_all add: ImportBufferAsImage_dispatch)
    next
      case None
      with png jpeg show thesis
        by (intro TGA [of "st\<lparr>Calls := Calls st @ Attempts P [PNG, JPEG, BMP]\<rparr>"])
          (simp_all add: ImportBufferAsImage_dispatch)
    qed
  qed
qed

lemma ResolutionError_nonempty: "ResolutionError w h \<noteq> []"
  by (simp add: ResolutionError_def)

section \<open>Sixteen-bit grayscale\<close>






lemma run_GrayPNG16:
  "ImportBufferAsImage (TestPlatform GrayPNG16 Map.empty) [] 0 EmptyState =
     (False, EmptyState\<lparr>OutError := ''16bit PNG file is not supported'', Calls := [CallSetCompressed PNG]\<rparr>)"
  by (simp add: TestRun_defs GrayPNG16_def)




section \<open>The result and the error text\<close>

lemma FixedErrorTexts_nonempty: "e \<in> set FixedErrorTexts \<Longrightarrow> e \<noteq> []"
  by (auto simp: FixedErrorTexts_def)

lemma ImportPNG_error:
  "(fst (ImportPNG P W st) = False \<longrightarrow>
      (OutError (snd (ImportPNG P W st)) \<in> set FixedErrorTexts \<or>
       OutError (snd (ImportPNG P W st)) = ResolutionError (GetWidth W) (GetHeight W))) \<and>
   (fst (ImportPNG P W st) = True \<longrightarrow> OutError (snd (ImportPNG P W st)) = OutError st)"
  by (simp add: ImportPNG_def FixedErrorTexts_def Let_def split: prod.splits option.splits)

lemma ImportJPEG_error:
  "(fst (ImportJPEG P W st) = False \<longrightarrow>
      (OutError (snd (ImportJPEG P W st)) \<in> set FixedErrorTexts \<or>
       OutError (snd (ImportJPEG P W st)) = ResolutionError (GetWidth W) (GetHeight W))) \<and>
   (fst (ImportJPEG P W st) = True \<longrightarrow> OutError (snd (ImportJPEG P W st)) = OutError st)"
  by (simp add: ImportJPEG_def FixedErrorTexts_def Let_def split: prod.splits option.splits)

lemma ImportBMP_error:
  "(fst (ImportBMP P W st) = False \<longrightarrow>
      (OutError (snd (ImportBMP P W st)) \<in> set FixedErrorTexts \<or>
       OutError (snd (ImportBMP P W st)) = ResolutionError (GetWidth W) (GetHeight W))) \<and>
   (fst (ImportBMP P W st) = True \<longrightarrow> OutError (snd (ImportBMP P W st)) = OutError st)"
  by (simp add: ImportBMP_def FixedErrorTexts_def Let_def split: prod.splits option.splits)

lemma ImportTGA_error:
  "(fst (ImportTGA P Buffer Length st) = False \<longrightarrow>
      (OutError (snd (ImportTGA P Buffer Length st)) \<in> set FixedErrorTexts \<or>
       OutError (snd (ImportTGA P Buffer Length st)) =
         ResolutionError (ucast (Width (TGAFileHeader P Buffer))) (ucast (Height (TGAFileHeader P Buffer))))) \<and>
   (fst (ImportTGA P Buffer Length st) = True \<longrightarrow>
      OutError (snd (ImportTGA P Buffer Length st)) =
        snd (snd (DecompressTGA P Buffer (OutImage st) (OutError st))) \<and>
      fst (DecompressTGA P Buffer (OutImage st) (OutError st)))"
  by (simp add: ImportTGA_def FixedErrorTexts_def Let_def split: prod.splits option.splits)

lemma ImportBufferAsImage_false_error:
  assumes "fst (ImportBufferAsImage P Buffer Length st) = False"
  shows "OutError (snd (ImportBufferAsImage P Buffer Length st)) \<in> set FixedErrorTexts \<or>
         (\<exists>w h. OutError (snd (ImportBufferAsImage P Buffer Length st)) = ResolutionError w h)"
proof (cases rule: ImportBufferAsImage_cases [of P Buffer Length st])
  case (PNG W st')
  then show ?thesis using assms ImportPNG_error [of P W st'] by auto
next
  case (JPEG W st')
  then show ?thesis using assms ImportJPEG_error [of P W st'] by auto
next
  case (BMP W st')
  then show ?thesis using assms ImportBMP_error [of P W st'] by auto
next
  case (TGA st')
  then show ?thesis using assms ImportTGA_error [of P Buffer Length st'] by auto
qed

lemma ImportBufferAsImage_true_wrapper:
  assumes "fst (ImportBufferAsImage P Buffer Length st) = True"
    and "Recognized P PNG Buffer Length \<noteq> None \<or> Recognized P JPEG Buffer Length \<noteq> None \<or>
         Recognized P BMP Buffer Length \<noteq> None"
  shows "OutError (snd (ImportBufferAsImage P Buffer Length st)) = OutError st"
proof (cases rule: ImportBufferAsImage_cases [of P Buffer Length st])
  case (PNG W st')
  then show ?thesis using assms ImportPNG_error [of P W st'] by auto
next
  case (JPEG W st')
  then show ?thesis using assms ImportJPEG_error [of P W st'] by auto
next
  case (BMP W st')
  then show ?thesis using assms ImportBMP_error [of P W st'] by auto
next
  case (TGA st')
  then show ?thesis using assms by simp
qed

lemma ImportBufferAsImage_true_TGA:
  assumes "fst (ImportBufferAsImage P Buffer Length st) = True"
    and "Recognized P PNG Buffer Length = None" "Recognized P JPEG Buffer Length = None"
        "Recognized P BMP Buffer Length = None"
  shows "OutError (snd (ImportBufferAsImage P Buffer Length st)) =
           snd (snd (DecompressTGA P Buffer (OutImage st) (OutError st))) \<and>
         fst (DecompressTGA P Buffer (OutImage st) (OutError st))"
proof (cases rule: ImportBufferAsImage_cases [of P Buffer Length st])
  case (TGA st')
  then show ?thesis using assms ImportTGA_error [of P Buffer Length st'] by auto
qed (use assms in simp_all)

text \<open>
  C9. When \<open>ImportBufferAsImage\<close> returns false, the error is one of the non-empty texts
  the function assigns. When it returns true it has assigned none: on the PNG, JPEG and BMP
  paths the error is the one on entry, and on the TGA path it is what \<open>DecompressTGA\<close> left.
  So, with an empty error on entry and a TGA helper that leaves the error alone when it
  succeeds, the function returns false exactly when the error is not empty afterwards.
\<close>

theorem ImportBufferAsImage_error_iff:
  "(fst (ImportBufferAsImage P Buffer Length st) = False \<longrightarrow>
      OutError (snd (ImportBufferAsImage P Buffer Length st)) \<noteq> [] \<and>
      (OutError (snd (ImportBufferAsImage P Buffer Length st)) \<in> set FixedErrorTexts \<or>
       (\<exists>w h. OutError (snd (ImportBufferAsImage P Buffer Length st)) = ResolutionError w h))) \<and>
   (fst (ImportBufferAsImage P Buffer Length st) = True \<and>
    (Recognized P PNG Buffer Length \<noteq> None \<or> Recognized P JPEG Buffer Length \<noteq> None \<or>
     Recognized P BMP Buffer Length \<noteq> None) \<longrightarrow>
      OutError (snd (ImportBufferAsImage P Buffer Length st)) = OutError st) \<and>
   (fst (ImportBufferAsImage P Buffer Length st) = True \<and>
    Recognized P PNG Buffer Length = None \<and> Recognized P JPEG Buffer Length = None \<and>
    Recognized P BMP Buffer Length = None \<longrightarrow>
      OutError (snd (ImportBufferAsImage P Buffer Length st)) =
        snd (snd (DecompressTGA P Buffer (OutImage st) (OutError st)))) \<and>
   (OutError st = [] \<and>
    (\<forall>img e. fst (DecompressTGA P Buffer img e) \<longrightarrow> snd (snd (DecompressTGA P Buffer img e)) = e) \<longrightarrow>
      (fst (ImportBufferAsImage P Buffer Length st) = False) =
      (OutError (snd (ImportBufferAsImage P Buffer Length st)) \<noteq> []))"
proof -
  let ?r = "ImportBufferAsImage P Buffer Length st"
  have A: "fst ?r = False \<longrightarrow> OutError (snd ?r) \<noteq> [] \<and>
      (OutError (snd ?r) \<in> set FixedErrorTexts \<or> (\<exists>w h. OutError (snd ?r) = ResolutionError w h))"
    using ImportBufferAsImage_false_error [of P Buffer Length st]
      FixedErrorTexts_nonempty ResolutionError_nonempty by metis
  have B: "fst ?r = True \<and>
    (Recognized P PNG Buffer Length \<noteq> None \<or> Recognized P JPEG Buffer Length \<noteq> None \<or>
     Recognized P BMP Buffer Length \<noteq> None) \<longrightarrow> OutError (snd ?r) = OutError st"
    using ImportBufferAsImage_true_wrapper [of P Buffer Length st] by blast
  have C: "fst ?r = True \<and>
    Recognized P PNG Buffer Length = None \<and> Recognized P JPEG Buffer Length = None \<and>
    Recognized P BMP Buffer Length = None \<longrightarrow>
      OutError (snd ?r) = snd (snd (DecompressTGA P Buffer (OutImage st) (OutError st)))"
    using ImportBufferAsImage_true_TGA [of P Buffer Length st] by blast
  have D: "OutError st = [] \<and>
    (\<forall>img e. fst (DecompressTGA P Buffer img e) \<longrightarrow> snd (snd (DecompressTGA P Buffer img e)) = e) \<longrightarrow>
      (fst ?r = False) = (OutError (snd ?r) \<noteq> [])"
  proof (intro impI, elim conjE)
    assume e: "OutError st = []"
      and d: "\<forall>img e. fst (DecompressTGA P Buffer img e) \<longrightarrow> snd (snd (DecompressTGA P Buffer img e)) = e"
    show "(fst ?r = False) = (OutError (snd ?r) \<noteq> [])"
    proof (cases "fst ?r")
      case False
      then show ?thesis using A by simp
    next
      case True
      have "OutError (snd ?r) = []"
      proof (cases "Recognized P PNG Buffer Length = None \<and> Recognized P JPEG Buffer Length = None \<and>
          Recognized P BMP Buffer Length = None")
        case True
        with \<open>fst ?r\<close> have "OutError (snd ?r) = snd (snd (DecompressTGA P Buffer (OutImage st) (OutError st)))"
          and "fst (DecompressTGA P Buffer (OutImage st) (OutError st))"
          using ImportBufferAsImage_true_TGA [of P Buffer Length st] by simp_all
        then show ?thesis using d e by simp
      next
        case False
        with \<open>fst ?r\<close> show ?thesis using B e by auto
      qed
      with True show ?thesis by simp
    qed
  qed
  show ?thesis using A B C D by blast
qed

lemma TestDecompressTGA_error:
  "fst (TestDecompressTGA Buffer img e) \<longrightarrow> snd (snd (TestDecompressTGA Buffer img e)) = e"
  by (simp add: TestDecompressTGA_def Let_def)

theorem ImportBufferAsImage_error_iff_witness:
  "fst (ImportBufferAsImage (TestPlatform GrayPNG16 Map.empty) [] 0 EmptyState) = False \<and>
   OutError (snd (ImportBufferAsImage (TestPlatform GrayPNG16 Map.empty) [] 0 EmptyState)) =
     ''16bit PNG file is not supported'' \<and>
   ''16bit PNG file is not supported'' \<in> set FixedErrorTexts \<and>
   fst (ImportBufferAsImage (TestPlatform GrayPNG8 Map.empty) [] 0 EmptyState) = True \<and>
   Recognized (TestPlatform GrayPNG8 Map.empty) PNG [] 0 = Some (TestWrapper 2 2 8 Gray) \<and>
   OutError (snd (ImportBufferAsImage (TestPlatform GrayPNG8 Map.empty) [] 0 EmptyState)) =
     OutError EmptyState \<and>
   OutError EmptyState = [] \<and>
   Recognized (TestPlatform Map.empty Map.empty) PNG (TGABuffer 0 3 8) 22 = None \<and>
   Recognized (TestPlatform Map.empty Map.empty) JPEG (TGABuffer 0 3 8) 22 = None \<and>
   Recognized (TestPlatform Map.empty Map.empty) BMP (TGABuffer 0 3 8) 22 = None \<and>
   fst (ImportBufferAsImage (TestPlatform Map.empty Map.empty) (TGABuffer 0 3 8) 22 EmptyState) = True \<and>
   OutError (snd (ImportBufferAsImage (TestPlatform Map.empty Map.empty) (TGABuffer 0 3 8) 22 EmptyState)) =
     snd (snd (DecompressTGA (TestPlatform Map.empty Map.empty) (TGABuffer 0 3 8)
       (OutImage EmptyState) (OutError EmptyState))) \<and>
   (fst (ImportBufferAsImage (TestPlatform Map.empty Map.empty) (TGABuffer 0 3 8) 22 EmptyState) = False) =
   (OutError (snd (ImportBufferAsImage (TestPlatform Map.empty Map.empty) (TGABuffer 0 3 8) 22 EmptyState)) \<noteq> [])"
proof -
  have d: "\<forall>img e. fst (DecompressTGA (TestPlatform Map.empty Map.empty) (TGABuffer 0 3 8) img e) \<longrightarrow>
      snd (snd (DecompressTGA (TestPlatform Map.empty Map.empty) (TGABuffer 0 3 8) img e)) = e"
    using TestDecompressTGA_error by (simp add: TestPlatform_def)
  have r: "Recognized (TestPlatform GrayPNG8 Map.empty) PNG [] 0 = Some (TestWrapper 2 2 8 Gray)"
    by (simp add: TestPlatform_Recognized GrayPNG8_def)
  have f: "''16bit PNG file is not supported'' \<in> set FixedErrorTexts"
    by (simp add: FixedErrorTexts_def)
  show ?thesis
    using d r f
      ImportBufferAsImage_error_iff [of "TestPlatform GrayPNG16 Map.empty" "[]" 0 EmptyState]
      ImportBufferAsImage_error_iff [of "TestPlatform GrayPNG8 Map.empty" "[]" 0 EmptyState]
      ImportBufferAsImage_error_iff [of "TestPlatform Map.empty Map.empty" "TGABuffer 0 3 8" 22 EmptyState]
    by (simp add: run_GrayPNG16 run_GrayPNG8 run_GrayTGA8 EmptyState_image TestPlatform_Recognized)
qed

section \<open>The order of the decoders: properties\<close>

lemma ImportTGA_unsupported:
  assumes "\<not> (TGAHeaderFits P Length \<and> TGATypeSupported (TGAFileHeader P Buffer))"
  shows "ImportTGA P Buffer Length st =
    (False, st\<lparr>OutError := ''TGA file contains data in an unsupported format.''\<rparr>)"
  using assms by (auto simp: ImportTGA_def Let_def)

text \<open>
  C10. The wrappers are tried in the order PNG, JPEG, BMP, and the first that accepts the
  buffer decides the path: the result is that of the PNG branch when the PNG wrapper
  accepts, of the JPEG branch when PNG refuses and JPEG accepts, of the BMP branch when
  both refuse and BMP accepts, and of the TGA branch when all three refuse; the calls made
  on the way are the \<^verbatim>\<open>SetCompressed\<close> calls of the wrappers tried so far. A buffer that the
  TGA header test refuses as well is turned away with the TGA text, whatever it holds.
\<close>

theorem ImportBufferAsImage_order:
  "(Recognized P PNG Buffer Length = Some W \<longrightarrow>
      ImportBufferAsImage P Buffer Length st =
        ImportPNG P W (st\<lparr>Calls := Calls st @ Attempts P [PNG]\<rparr>)) \<and>
   (Recognized P PNG Buffer Length = None \<and> Recognized P JPEG Buffer Length = Some W \<longrightarrow>
      ImportBufferAsImage P Buffer Length st =
        ImportJPEG P W (st\<lparr>Calls := Calls st @ Attempts P [PNG, JPEG]\<rparr>)) \<and>
   (Recognized P PNG Buffer Length = None \<and> Recognized P JPEG Buffer Length = None \<and>
    Recognized P BMP Buffer Length = Some W \<longrightarrow>
      ImportBufferAsImage P Buffer Length st =
        ImportBMP P W (st\<lparr>Calls := Calls st @ Attempts P [PNG, JPEG, BMP]\<rparr>)) \<and>
   (Recognized P PNG Buffer Length = None \<and> Recognized P JPEG Buffer Length = None \<and>
    Recognized P BMP Buffer Length = None \<longrightarrow>
      ImportBufferAsImage P Buffer Length st =
        ImportTGA P Buffer Length (st\<lparr>Calls := Calls st @ Attempts P [PNG, JPEG, BMP]\<rparr>)) \<and>
   (Recognized P PNG Buffer Length = None \<and> Recognized P JPEG Buffer Length = None \<and>
    Recognized P BMP Buffer Length = None \<and>
    \<not> (TGAHeaderFits P Length \<and> TGATypeSupported (TGAFileHeader P Buffer)) \<longrightarrow>
      ImportBufferAsImage P Buffer Length st =
        (False, st\<lparr>OutError := ''TGA file contains data in an unsupported format.'',
                   Calls := Calls st @ Attempts P [PNG, JPEG, BMP]\<rparr>))"
  by (simp add: ImportBufferAsImage_dispatch ImportTGA_unsupported)

theorem ImportBufferAsImage_order_witness:
  "Recognized (TestPlatform (AcceptedBy [PNG, JPEG, BMP]) Map.empty) PNG [] 0 = Some (TestWrapper 2 2 8 RGBA) \<and>
   Recognized (TestPlatform (AcceptedBy [PNG, JPEG, BMP]) Map.empty) JPEG [] 0 = Some (TestWrapper 2 2 8 RGBA) \<and>
   Calls (snd (ImportBufferAsImage (TestPlatform (AcceptedBy [PNG, JPEG, BMP]) Map.empty) [] 0 EmptyState)) =
     [CallSetCompressed PNG, CallGetRaw PNG] \<and>
   Recognized (TestPlatform (AcceptedBy [JPEG, BMP]) Map.empty) PNG [] 0 = None \<and>
   Recognized (TestPlatform (AcceptedBy [JPEG, BMP]) Map.empty) JPEG [] 0 = Some (TestWrapper 2 2 8 RGBA) \<and>
   Calls (snd (ImportBufferAsImage (TestPlatform (AcceptedBy [JPEG, BMP]) Map.empty) [] 0 EmptyState)) =
     [CallSetCompressed PNG, CallSetCompressed JPEG, CallGetRaw JPEG] \<and>
   Recognized (TestPlatform (AcceptedBy [BMP]) Map.empty) JPEG [] 0 = None \<and>
   Recognized (TestPlatform (AcceptedBy [BMP]) Map.empty) BMP [] 0 = Some (TestWrapper 2 2 8 RGBA) \<and>
   Calls (snd (ImportBufferAsImage (TestPlatform (AcceptedBy [BMP]) Map.empty) [] 0 EmptyState)) =
     [CallSetCompressed PNG, CallSetCompressed JPEG, CallSetCompressed BMP, CallGetRaw BMP] \<and>
   Recognized (TestPlatform (AcceptedBy []) Map.empty) BMP [71, 73, 70] 3 = None \<and>
   TGAHeaderFits (TestPlatform (AcceptedBy []) Map.empty) 3 = False \<and>
   ImportBufferAsImage (TestPlatform (AcceptedBy []) Map.empty) [71, 73, 70] 3 EmptyState =
     (False, EmptyState\<lparr>OutError := ''TGA file contains data in an unsupported format.'',
        Calls := [CallSetCompressed PNG, CallSetCompressed JPEG, CallSetCompressed BMP]\<rparr>)"
proof -
  have h: "TGAHeaderFits (TestPlatform (AcceptedBy []) Map.empty) 3 = False"
    by (simp add: TGAHeaderFits_def TestPlatform_def)
  have a: "Attempts (TestPlatform reports Map.empty) fs = map CallSetCompressed fs" for reports fs
    by (simp add: Attempts_def TestPlatform_def)
  show ?thesis
    using h
      ImportBufferAsImage_order [of "TestPlatform (AcceptedBy [PNG, JPEG, BMP]) Map.empty" "[]" 0 "TestWrapper 2 2 8 RGBA" EmptyState]
      ImportBufferAsImage_order [of "TestPlatform (AcceptedBy [JPEG, BMP]) Map.empty" "[]" 0 "TestWrapper 2 2 8 RGBA" EmptyState]
      ImportBufferAsImage_order [of "TestPlatform (AcceptedBy [BMP]) Map.empty" "[]" 0 "TestWrapper 2 2 8 RGBA" EmptyState]
      ImportBufferAsImage_order [of "TestPlatform (AcceptedBy []) Map.empty" "[71, 73, 70]" 3 "TestWrapper 2 2 8 RGBA" EmptyState]
    by (simp add: TestPlatform_Recognized AcceptedBy_def a)
      (simp add: TestRun_defs)
qed

section \<open>Importing a file: properties\<close>

lemma Printf_MAX_FILESIZE_BYTES: "Printf_int 999999999 = ''999999999''"
  by (simp add: Printf_int_def StringOfNat.simps DigitChar_def)

text \<open>
  C6. \<open>ImportFileAsImage\<close> returns with a non-empty error text, without calling a decoder
  and with the image untouched, when the file does not exist, when its size is above
  999999999 bytes (then \<^verbatim>\<open>LoadFileToArray\<close> is not called either), and when reading the
  bytes fails. The three texts differ from one another, whatever the file names.
\<close>

theorem ImportFileAsImage_rejections:
  "(\<not> FileExists P ImageFilename \<longrightarrow>
      ImportFileAsImage P ImageFilename st =
        Inr (st\<lparr>OutError := ''Image does not exist: '' @ ImageFilename,
                 Calls := Calls st @ [CallFileExists]\<rparr>)) \<and>
   (FileExists P ImageFilename \<and> 999999999 < FileSize P ImageFilename \<longrightarrow>
      ImportFileAsImage P ImageFilename st =
        Inr (st\<lparr>OutError := ''Image filesize > 999999999 MBs): '' @ ImageFilename,
                 Calls := Calls st @ [CallFileExists, CallFileSize]\<rparr>)) \<and>
   (FileExists P ImageFilename \<and> FileSize P ImageFilename \<noteq> - 1 \<and>
    FileSize P ImageFilename \<le> 999999999 \<and> LoadFileToArray P ImageFilename = None \<longrightarrow>
      ImportFileAsImage P ImageFilename st =
        Inr (st\<lparr>OutError := ''Image I/O error: '' @ ImageFilename,
                 Calls := Calls st @ [CallFileExists, CallFileSize, CallLoadFileToArray]\<rparr>)) \<and>
   ''Image does not exist: '' @ a \<noteq> ''Image filesize > 999999999 MBs): '' @ b \<and>
   ''Image does not exist: '' @ a \<noteq> ''Image I/O error: '' @ b \<and>
   ''Image filesize > 999999999 MBs): '' @ a \<noteq> ''Image I/O error: '' @ b \<and>
   ''Image does not exist: '' @ a \<noteq> [] \<and>
   ''Image filesize > 999999999 MBs): '' @ a \<noteq> [] \<and>
   ''Image I/O error: '' @ a \<noteq> []"
  by (simp add: ImportFileAsImage_def Let_def Printf_MAX_FILESIZE_BYTES INDEX_NONE_def
      MAX_FILESIZE_BYTES_def)

theorem ImportFileAsImage_rejections_witness:
  "FileExists (TestPlatform Map.empty TestFiles) ''missing.png'' = False \<and>
   ImportFileAsImage (TestPlatform Map.empty TestFiles) ''missing.png'' EmptyState =
     Inr \<lparr>OutImage = EmptyImage, OutError = ''Image does not exist: missing.png'',
          Calls = [CallFileExists]\<rparr> \<and>
   FileExists (TestPlatform Map.empty TestFiles) ''big.png'' \<and>
   999999999 < FileSize (TestPlatform Map.empty TestFiles) ''big.png'' \<and>
   ImportFileAsImage (TestPlatform Map.empty TestFiles) ''big.png'' EmptyState =
     Inr \<lparr>OutImage = EmptyImage, OutError = ''Image filesize > 999999999 MBs): big.png'',
          Calls = [CallFileExists, CallFileSize]\<rparr> \<and>
   FileExists (TestPlatform Map.empty TestFiles) ''locked.png'' \<and>
   FileSize (TestPlatform Map.empty TestFiles) ''locked.png'' = 3 \<and>
   LoadFileToArray (TestPlatform Map.empty TestFiles) ''locked.png'' = None \<and>
   ImportFileAsImage (TestPlatform Map.empty TestFiles) ''locked.png'' EmptyState =
     Inr \<lparr>OutImage = EmptyImage, OutError = ''Image I/O error: locked.png'',
          Calls = [CallFileExists, CallFileSize, CallLoadFileToArray]\<rparr>"
proof -
  let ?P = "TestPlatform Map.empty TestFiles"
  have f: "FileExists ?P ''missing.png'' = False" "FileExists ?P ''big.png''"
    "FileSize ?P ''big.png'' = 1000000000" "FileExists ?P ''locked.png''"
    "FileSize ?P ''locked.png'' = 3" "LoadFileToArray ?P ''locked.png'' = None"
    by (simp_all add: TestPlatform_def TestFiles_def)
  show ?thesis
    using ImportFileAsImage_rejections [of ?P "''missing.png''" EmptyState]
      ImportFileAsImage_rejections [of ?P "''big.png''" EmptyState]
      ImportFileAsImage_rejections [of ?P "''locked.png''" EmptyState]
    by (simp add: f EmptyState_def)
qed

section \<open>The timestamp of the image\<close>

lemma ImportPNG_ModificationTime:
  "ModificationTime (OutImage (snd (ImportPNG P W st))) = ModificationTime (OutImage st)"
  by (simp add: ImportPNG_def Init2D_def Let_def split: prod.splits option.splits)

lemma ImportJPEG_ModificationTime:
  "ModificationTime (OutImage (snd (ImportJPEG P W st))) = ModificationTime (OutImage st)"
  by (simp add: ImportJPEG_def Init2D_def Let_def split: prod.splits option.splits)

lemma ImportBMP_ModificationTime:
  "ModificationTime (OutImage (snd (ImportBMP P W st))) = ModificationTime (OutImage st)"
  by (simp add: ImportBMP_def Init2D_def Let_def split: prod.splits option.splits)

lemma ImportTGA_ModificationTime:
  assumes "\<forall>img e. ModificationTime (fst (snd (DecompressTGA P Buffer img e))) = ModificationTime img"
  shows "ModificationTime (OutImage (snd (ImportTGA P Buffer Length st))) = ModificationTime (OutImage st)"
proof (cases "DecompressTGA P Buffer (OutImage st) (OutError st)")
  case (fields bResult img err)
  then have "ModificationTime img = ModificationTime (OutImage st)"
    using assms [rule_format, of "OutImage st" "OutError st"] by simp
  with fields show ?thesis
    by (simp add: ImportTGA_def Let_def)
qed

lemma ImportBufferAsImage_ModificationTime:
  assumes "\<forall>img e. ModificationTime (fst (snd (DecompressTGA P Buffer img e))) = ModificationTime img"
  shows "ModificationTime (OutImage (snd (ImportBufferAsImage P Buffer Length st))) =
         ModificationTime (OutImage st)"
proof (cases rule: ImportBufferAsImage_cases [of P Buffer Length st])
  case (PNG W st')
  then show ?thesis by (simp add: ImportPNG_ModificationTime)
next
  case (JPEG W st')
  then show ?thesis by (simp add: ImportJPEG_ModificationTime)
next
  case (BMP W st')
  then show ?thesis by (simp add: ImportBMP_ModificationTime)
next
  case (TGA st')
  then show ?thesis by (simp add: ImportTGA_ModificationTime [OF assms])
qed

text \<open>
  C8 (as the code has it). For a file that exists, passes the size cap and is read, the
  image's timestamp after \<open>ImportFileAsImage\<close> is the later of the file's creation time and
  its last-modified time, given that the TGA helper leaves the timestamp alone.
\<close>

theorem ImportFileAsImage_timestamp:
  assumes "FileExists P ImageFilename"
    and "FileSize P ImageFilename \<noteq> - 1"
    and "FileSize P ImageFilename \<le> 999999999"
    and "LoadFileToArray P ImageFilename = Some FileBytes"
    and "\<forall>img e. ModificationTime (fst (snd (DecompressTGA P (FileBytes @ [0]) img e))) =
           ModificationTime img"
  shows "\<exists>st'. ImportFileAsImage P ImageFilename st = Inr st' \<and>
           ModificationTime (OutImage st') =
             max (CreationTime (GetStatData P ImageFilename))
                 (FFileStatData.ModificationTime (GetStatData P ImageFilename))"
  using assms(1-4)
  by (simp add: ImportFileAsImage_def Let_def INDEX_NONE_def MAX_FILESIZE_BYTES_def
      ImportBufferAsImage_ModificationTime [OF assms(5)] FMath_Max_def max_def)

lemma TestDecompressTGA_ModificationTime:
  "ModificationTime (fst (snd (TestDecompressTGA Buffer img e))) = ModificationTime img"
  by (simp add: TestDecompressTGA_def Let_def Init2D_def)

lemma run_copied:
  "ImportFileAsImage (TestPlatform Map.empty TestFiles) ''copied.tga'' EmptyState =
     Inr \<lparr>OutImage = \<lparr>SizeX = 1, SizeY = 1, Format = TSF_BGRA8, RawData = [255, 255, 255, 255, 0],
            SRGB = True, CompressionSettings = TC_Default, ModificationTime = 10\<rparr>,
          OutError = [],
          Calls = [CallFileExists, CallFileSize, CallLoadFileToArray, CallGetStatData,
                   CallSetCompressed PNG, CallSetCompressed JPEG, CallSetCompressed BMP,
                   CallDecompressTGA]\<rparr>"
  by (simp add: ImportFileAsImage_def TestFiles_def TestRun_defs TGABuffer_def word_cat_eq
      INDEX_NONE_def MAX_FILESIZE_BYTES_def FMath_Max_def)

theorem ImportFileAsImage_timestamp_witness:
  "FileExists (TestPlatform Map.empty TestFiles) ''edited.tga'' \<and>
   FileSize (TestPlatform Map.empty TestFiles) ''edited.tga'' = 22 \<and>
   LoadFileToArray (TestPlatform Map.empty TestFiles) ''edited.tga'' = Some (TGABuffer 0 2 32) \<and>
   GetStatData (TestPlatform Map.empty TestFiles) ''edited.tga'' = \<lparr>CreationTime = 3, ModificationTime = 7\<rparr> \<and>
   (\<exists>st'. ImportFileAsImage (TestPlatform Map.empty TestFiles) ''edited.tga'' EmptyState = Inr st' \<and>
      ModificationTime (OutImage st') = 7)"
proof -
  let ?P = "TestPlatform Map.empty TestFiles"
  have f: "FileExists ?P ''edited.tga''" "FileSize ?P ''edited.tga'' = 22"
    "LoadFileToArray ?P ''edited.tga'' = Some (TGABuffer 0 2 32)"
    "GetStatData ?P ''edited.tga'' = \<lparr>CreationTime = 3, ModificationTime = 7\<rparr>"
    by (simp_all add: TestPlatform_def TestFiles_def)
  have d: "\<forall>img e. ModificationTime (fst (snd (DecompressTGA ?P (TGABuffer 0 2 32 @ [0]) img e))) =
      ModificationTime img"
    by (simp add: TestPlatform_def TestDecompressTGA_ModificationTime)
  show ?thesis
    using ImportFileAsImage_timestamp [OF f(1) _ _ f(3) d, of EmptyState]
    by (simp add: f)
qed

text \<open>
  C8 as stated fails for a file created after it was last modified (a copy keeps the
  modification time of its original): the image carries the creation time, 10, and not
  the last-modified time, 5.
\<close>

theorem ImportFileAsImage_timestamp_counterexample:
  "FileExists (TestPlatform Map.empty TestFiles) ''copied.tga'' \<and>
   FileSize (TestPlatform Map.empty TestFiles) ''copied.tga'' = 22 \<and>
   FFileStatData.ModificationTime (GetStatData (TestPlatform Map.empty TestFiles) ''copied.tga'') = 5 \<and>
   ImportFileAsImage (TestPlatform Map.empty TestFiles) ''copied.tga'' EmptyState =
     Inr \<lparr>OutImage = \<lparr>SizeX = 1, SizeY = 1, Format = TSF_BGRA8, RawData = [255, 255, 255, 255, 0],
            SRGB = True, CompressionSettings = TC_Default, ModificationTime = 10\<rparr>,
          OutError = [],
          Calls = [CallFileExists, CallFileSize, CallLoadFileToArray, CallGetStatData,
                   CallSetCompressed PNG, CallSetCompressed JPEG, CallSetCompressed BMP,
                   CallDecompressTGA]\<rparr>"
  by (simp add: run_copied) (simp add: TestPlatform_def TestFiles_def)

section \<open>The placeholder texture: properties\<close>

text \<open>
  C7 (as the code has it). On the game thread \<open>CreateDummyTexture\<close> creates a texture
  whose platform data and single mip are 1 by 1, whatever the image, and whose pixel
  format follows the format tag: \<open>TSF_G8\<close> gives \<open>PF_G8\<close>, \<open>TSF_G16\<close> gives \<open>PF_G16\<close>,
  \<open>TSF_BGRA8\<close> and \<open>TSF_BGRE8\<close> give \<open>PF_B8G8R8A8\<close>, \<open>TSF_RGBA16\<close> gives
  \<open>PF_R16G16B16A16_SINT\<close>, \<open>TSF_RGBA16F\<close> gives \<open>PF_FloatRGBA\<close>, and any other tag gives
  \<open>PF_B8G8R8A8\<close>.
\<close>

theorem CreateDummyTexture_format:
  assumes "IsInGameThread P"
  shows "\<exists>t. CreateDummyTexture P ImageFilename ImageFormat = Inr t \<and>
     PlatformSizeX (PlatformData t) = 1 \<and> PlatformSizeY (PlatformData t) = 1 \<and>
     map MipSizeX (Mips (PlatformData t)) = [1] \<and> map MipSizeY (Mips (PlatformData t)) = [1] \<and>
     PixelFormat (PlatformData t) =
       (if ImageFormat = TSF_G8 then PF_G8
        else if ImageFormat = TSF_G16 then PF_G16
        else if ImageFormat = TSF_BGRA8 then PF_B8G8R8A8
        else if ImageFormat = TSF_BGRE8 then PF_B8G8R8A8
        else if ImageFormat = TSF_RGBA16 then PF_R16G16B16A16_SINT
        else if ImageFormat = TSF_RGBA16F then PF_FloatRGBA
        else PF_B8G8R8A8)"
  using assms by (cases ImageFormat) (simp_all add: CreateDummyTexture_def Let_def)

theorem CreateDummyTexture_format_witness:
  "IsInGameThread (TestPlatform Map.empty Map.empty) \<and>
   (\<exists>t. CreateDummyTexture (TestPlatform Map.empty Map.empty) ''a.png'' TSF_RGBA16 = Inr t \<and>
      PlatformSizeX (PlatformData t) = 1 \<and> PlatformSizeY (PlatformData t) = 1 \<and>
      PixelFormat (PlatformData t) = PF_R16G16B16A16_SINT) \<and>
   (\<exists>t. CreateDummyTexture (TestPlatform Map.empty Map.empty) ''a.png'' TSF_RGBE8 = Inr t \<and>
      PixelFormat (PlatformData t) = PF_B8G8R8A8)"
proof -
  have g: "IsInGameThread (TestPlatform Map.empty Map.empty)"
    by (simp add: TestPlatform_def)
  show ?thesis
    using g CreateDummyTexture_format [OF g, of "''a.png''" TSF_RGBA16]
      CreateDummyTexture_format [OF g, of "''a.png''" TSF_RGBE8]
    by auto
qed

text \<open>
  C7 as stated fails on the size: for a decoded image of 2 by 2 pixels the texture made
  for its format tag is 1 by 1.
\<close>

theorem CreateDummyTexture_size_counterexample:
  "fst (ImportBufferAsImage (TestPlatform (AcceptedBy [PNG]) Map.empty) [] 0 EmptyState) = True \<and>
   SizeX (OutImage (snd (ImportBufferAsImage (TestPlatform (AcceptedBy [PNG]) Map.empty) [] 0 EmptyState))) = 2 \<and>
   SizeY (OutImage (snd (ImportBufferAsImage (TestPlatform (AcceptedBy [PNG]) Map.empty) [] 0 EmptyState))) = 2 \<and>
   Format (OutImage (snd (ImportBufferAsImage (TestPlatform (AcceptedBy [PNG]) Map.empty) [] 0 EmptyState))) = TSF_BGRA8 \<and>
   CreateDummyTexture (TestPlatform (AcceptedBy [PNG]) Map.empty) ''a.png'' TSF_BGRA8 =
     Inr \<lparr>NeverStream = True,
          PlatformData = \<lparr>PlatformSizeX = 1, PlatformSizeY = 1, PixelFormat = PF_B8G8R8A8,
            Mips = [\<lparr>MipSizeX = 1, MipSizeY = 1, BulkData = replicate 4 0\<rparr>]\<rparr>\<rparr>"
  by (simp add: TestRun_defs AcceptedBy_def CreateDummyTexture_def TestBlockBytes_def)

end
